theory Spec2Isabelle
  imports Complex_Main "HOL-Library.Log_Nat"
begin

section \<open>Numbers\<close>

text \<open>
  Every number of the cart is a JavaScript number, an IEEE 754 double, and every \<^verbatim>\<open>+\<close>,
  \<^verbatim>\<open>-\<close>, \<^verbatim>\<open>*\<close> and \<^verbatim>\<open>/\<close> of the source rounds its exact result to the nearest double, a
  tie to the one with an even significand. A finite double is a rational number, so
  numbers are rationals here, and \<open>fl\<close> is that rounding: with \<open>2 ^ k \<le> |x| < 2 ^ (k + 1)\<close>
  the doubles near \<open>x\<close> are the multiples of \<open>2 ^ (k - 52)\<close>, and of \<open>2 ^ -1074\<close> below the
  normal range. A result beyond the largest finite double (about 1.8e308), where the code
  gets \<^verbatim>\<open>Infinity\<close>, is outside the model: \<open>fl\<close> goes on with the rounded value.
\<close>

definition pow2 :: "int \<Rightarrow> rat" where
  "pow2 e = (if 0 \<le> e then 2 ^ nat e else 1 / 2 ^ nat (- e))"

text \<open>\<open>ilog2 x\<close> is the \<open>k\<close> with \<open>2 ^ k \<le> x < 2 ^ (k + 1)\<close>, for \<open>x > 0\<close>.\<close>

definition ilog2 :: "rat \<Rightarrow> int" where
  "ilog2 x = (if 1 \<le> x then bitlen \<lfloor>x\<rfloor> - 1 else - bitlen (\<lceil>1 / x\<rceil> - 1))"

definition round_even :: "rat \<Rightarrow> int" where
  "round_even m =
     (let f = \<lfloor>m\<rfloor>; r = m - of_int f
      in if r < 1 / 2 then f else if 1 / 2 < r then f + 1 else if even f then f else f + 1)"

definition fl :: "rat \<Rightarrow> rat" where
  "fl x =
     (if x = 0 then 0
      else let e = max (ilog2 \<bar>x\<bar> - 52) (- 1074)
           in of_int (round_even (x / pow2 e)) * pow2 e)"

text \<open>
  The specification speaks of decimal quantities and of sums and differences as such. To
  compare the two, every function below takes the arithmetic as its first argument:
  \<open>Binary64\<close> is the arithmetic of the code, each operation rounded by \<open>fl\<close>; \<open>Decimal\<close>
  is the arithmetic of the specification, each operation exact. \<open>litn\<close> is a numeric
  literal of the source (\<^verbatim>\<open>0.01\<close> is the double nearest to one hundredth). Integers such as
  \<^verbatim>\<open>0\<close> and \<^verbatim>\<open>100\<close> are doubles and are written as they are.
\<close>

datatype arithmetic = Decimal | Binary64

fun rnd :: "arithmetic \<Rightarrow> rat \<Rightarrow> rat" where
  "rnd Decimal x = x"
| "rnd Binary64 x = fl x"

definition addn :: "arithmetic \<Rightarrow> rat \<Rightarrow> rat \<Rightarrow> rat" where
  "addn ar a b = rnd ar (a + b)"

definition subn :: "arithmetic \<Rightarrow> rat \<Rightarrow> rat \<Rightarrow> rat" where
  "subn ar a b = rnd ar (a - b)"

definition muln :: "arithmetic \<Rightarrow> rat \<Rightarrow> rat \<Rightarrow> rat" where
  "muln ar a b = rnd ar (a * b)"

definition divn :: "arithmetic \<Rightarrow> rat \<Rightarrow> rat \<Rightarrow> rat" where
  "divn ar a b = rnd ar (a / b)"

definition litn :: "arithmetic \<Rightarrow> rat \<Rightarrow> rat" where
  "litn ar x = rnd ar x"

section \<open>The cart engine of the cashier screen (pos_frontend/src/App.jsx)\<close>

text \<open>
  The cart is kept by \<^verbatim>\<open>cartReducer\<close>, a reducer \<^verbatim>\<open>(state, action) => state\<close>.
  Quantities are integers (the screen passes \<^verbatim>\<open>1\<close> or the result of \<^verbatim>\<open>parseInt\<close>; an
  integer below \<open>2 ^ 53\<close> is a double, and so are the sums of such quantities the screen
  can reach), product identifiers are natural numbers.
\<close>

subsection \<open>Data\<close>

text \<open>
  The payload dispatched with \<^verbatim>\<open>ADD_ITEM\<close>:
  \<^verbatim>\<open>{ id, sku, name, unit_price, quantity }\<close>. It carries no discount property.
  The property \<^verbatim>\<open>id\<close> is called \<open>item_id\<close> here (\<open>id\<close> is the identity function of HOL).
\<close>

record product_payload =
  item_id :: nat
  sku :: string
  name :: string
  unit_price :: rat
  quantity :: int

text \<open>
  A cart item is the payload spread out, plus the two discount properties and the stored
  line subtotal (\<^verbatim>\<open>subtotal\<close> in the source, \<open>item_subtotal\<close> here, since the cart
  state has a property \<^verbatim>\<open>subtotal\<close> of its own).
\<close>

record cart_item = product_payload +
  discount_percentage :: rat
  discount_amount :: rat
  item_subtotal :: rat

text \<open>The object returned by \<^verbatim>\<open>calculateTotals\<close>, in the order of the source.\<close>

record totals =
  subtotalBeforeDiscount :: rat
  totalItemDiscounts :: rat
  transactionDiscount :: rat
  totalDiscount :: rat
  subtotal :: rat

text \<open>The reducer's state: the five totals, the items and the two order-level discounts.\<close>

record cart_state = totals +
  items :: "cart_item list"
  transactionDiscountPercentage :: rat
  transactionDiscountAmount :: rat

text \<open>
  The actions. A discount in a payload may be missing (\<^verbatim>\<open>undefined\<close>), which is
  \<open>None\<close>. \<open>OTHER\<close> stands for any action type the \<^verbatim>\<open>switch\<close> does not know.
\<close>

datatype action =
    ADD_ITEM product_payload
  | UPDATE_QUANTITY nat int
  | UPDATE_ITEM_DISCOUNT nat "rat option" "rat option"
  | UPDATE_TRANSACTION_DISCOUNT "rat option" "rat option"
  | REMOVE_ITEM nat
  | CLEAR_CART
  | OTHER

subsection \<open>The two helpers of the reducer\<close>

text \<open>
  \<^verbatim>\<open>v || 0\<close> on a value that is a number or \<^verbatim>\<open>undefined\<close>: a falsy value
  (\<^verbatim>\<open>undefined\<close>, \<^verbatim>\<open>0\<close>) gives \<^verbatim>\<open>0\<close>, any other number gives itself.
\<close>

fun or_zero :: "rat option \<Rightarrow> rat" where
  "or_zero None = 0"
| "or_zero (Some v) = (if v = 0 then 0 else v)"

text \<open>
  \<^verbatim>\<open>calculateItemSubtotal(item)\<close> reads four properties of its argument:
  \<^verbatim>\<open>quantity\<close>, \<^verbatim>\<open>unit_price\<close>, \<^verbatim>\<open>discount_percentage\<close> and \<^verbatim>\<open>discount_amount\<close>.
  The reducer calls it on cart items and, in \<^verbatim>\<open>ADD_ITEM\<close>, on the payload, where the
  two discounts are absent; so the function takes the four values read, the discounts
  as optional ones. \<^verbatim>\<open>Math.max\<close> compares and does not round.
\<close>

definition calculateItemSubtotal ::
  "arithmetic \<Rightarrow> int \<Rightarrow> rat \<Rightarrow> rat option \<Rightarrow> rat option \<Rightarrow> rat" where
  "calculateItemSubtotal ar qty price discount_pct discount_amt =
    (let baseSubtotal = muln ar (of_int qty) price;
         discountPct = or_zero discount_pct;
         discountAmt = or_zero discount_amt;
         percentageDiscount = muln ar baseSubtotal (divn ar discountPct 100);
         itemDiscount = addn ar percentageDiscount discountAmt
     in max 0 (subn ar baseSubtotal itemDiscount))"

text \<open>\<^verbatim>\<open>calculateItemSubtotal({...item, quantity: q})\<close> and the like, on a cart item.\<close>

definition itemSubtotalOf :: "arithmetic \<Rightarrow> cart_item \<Rightarrow> rat" where
  "itemSubtotalOf ar item =
     calculateItemSubtotal ar (quantity item) (unit_price item)
       (Some (discount_percentage item)) (Some (discount_amount item))"

text \<open>
  In \<^verbatim>\<open>calculateTotals\<close> the second \<^verbatim>\<open>reduce\<close> returns
  \<^verbatim>\<open>sum + percentageDiscount + discountAmt\<close>, which is \<^verbatim>\<open>(sum + percentageDiscount) + discountAmt\<close>,
  and the net subtotal is
  \<^verbatim>\<open>subtotalAfterItemDiscounts - transactionPercentageDiscount - transactionDiscountAmt\<close>, which
  subtracts the two one after the other.
\<close>

definition calculateTotals :: "arithmetic \<Rightarrow> cart_item list \<Rightarrow> rat \<Rightarrow> rat \<Rightarrow> totals" where
  "calculateTotals ar its transactionDiscountPct transactionDiscountAmt =
    (let subtotalBefore =
           foldl (\<lambda>sum item. addn ar sum (muln ar (of_int (quantity item)) (unit_price item)))
             0 its;
         totalItemDisc =
           foldl (\<lambda>sum item.
                    let baseSubtotal = muln ar (of_int (quantity item)) (unit_price item);
                        discountPct = or_zero (Some (discount_percentage item));
                        discountAmt = or_zero (Some (discount_amount item));
                        percentageDiscount = muln ar baseSubtotal (divn ar discountPct 100)
                    in addn ar (addn ar sum percentageDiscount) discountAmt) 0 its;
         subtotalAfterItemDiscounts = subn ar subtotalBefore totalItemDisc;
         transactionPercentageDiscount =
           muln ar subtotalAfterItemDiscounts (divn ar transactionDiscountPct 100);
         totalDisc =
           addn ar (addn ar totalItemDisc transactionPercentageDiscount) transactionDiscountAmt;
         sub = max (litn ar (1 / 100))
                 (subn ar (subn ar subtotalAfterItemDiscounts transactionPercentageDiscount)
                    transactionDiscountAmt)
     in \<lparr> subtotalBeforeDiscount = subtotalBefore,
          totalItemDiscounts = totalItemDisc,
          transactionDiscount = addn ar transactionPercentageDiscount transactionDiscountAmt,
          totalDiscount = totalDisc,
          subtotal = sub \<rparr>)"

subsection \<open>The reducer\<close>

text \<open>\<^verbatim>\<open>{ ...state, items: its, ...t }\<close>\<close>

definition spread_totals :: "cart_state \<Rightarrow> cart_item list \<Rightarrow> totals \<Rightarrow> cart_state" where
  "spread_totals state its t =
     state \<lparr> items := its,
             subtotalBeforeDiscount := subtotalBeforeDiscount t,
             totalItemDiscounts := totalItemDiscounts t,
             transactionDiscount := transactionDiscount t,
             totalDiscount := totalDiscount t,
             subtotal := subtotal t \<rparr>"

text \<open>The totals of a new state, from its items and the discounts stored in \<open>state\<close>.\<close>

definition stateTotals :: "arithmetic \<Rightarrow> cart_state \<Rightarrow> cart_item list \<Rightarrow> totals" where
  "stateTotals ar state its =
     calculateTotals ar its
       (or_zero (Some (transactionDiscountPercentage state)))
       (or_zero (Some (transactionDiscountAmount state)))"

fun cartReducer :: "arithmetic \<Rightarrow> cart_state \<Rightarrow> action \<Rightarrow> cart_state" where
  "cartReducer ar state (ADD_ITEM payload) =
     (case find (\<lambda>item. item_id item = item_id payload) (items state) of
        Some existingItem \<Rightarrow>
          (let updatedItems =
                 map (\<lambda>item.
                        if item_id item = item_id payload
                        then item \<lparr> quantity := quantity item + quantity payload,
                                    item_subtotal :=
                                      itemSubtotalOf ar
                                        (item \<lparr> quantity := quantity item + quantity payload \<rparr>) \<rparr>
                        else item) (items state)
           in spread_totals state updatedItems (stateTotals ar state updatedItems))
      | None \<Rightarrow>
          (let newItem =
                 \<lparr> item_id = item_id payload, sku = sku payload, name = name payload,
                   unit_price = unit_price payload, quantity = quantity payload,
                   discount_percentage = 0,
                   discount_amount = 0,
                   item_subtotal =
                     calculateItemSubtotal ar (quantity payload) (unit_price payload) None None \<rparr>;
               newItems = items state @ [newItem]
           in spread_totals state newItems (stateTotals ar state newItems)))"
| "cartReducer ar state (UPDATE_QUANTITY pid qty) =
     (let updatedItems =
            filter (\<lambda>item. quantity item > 0)
              (map (\<lambda>item.
                      if item_id item = pid
                      then item \<lparr> quantity := qty,
                                  item_subtotal := itemSubtotalOf ar (item \<lparr> quantity := qty \<rparr>) \<rparr>
                      else item) (items state))
      in spread_totals state updatedItems (stateTotals ar state updatedItems))"
| "cartReducer ar state (UPDATE_ITEM_DISCOUNT pid pct amt) =
     (let itemsWithDiscount =
            map (\<lambda>item.
                   if item_id item = pid
                   then item \<lparr> discount_percentage := or_zero pct,
                               discount_amount := or_zero amt,
                               item_subtotal :=
                                 itemSubtotalOf ar
                                   (item \<lparr> discount_percentage := or_zero pct,
                                            discount_amount := or_zero amt \<rparr>) \<rparr>
                   else item) (items state)
      in spread_totals state itemsWithDiscount (stateTotals ar state itemsWithDiscount))"
| "cartReducer ar state (UPDATE_TRANSACTION_DISCOUNT pct amt) =
     (let totalsWithTransactionDiscount =
            calculateTotals ar (items state) (or_zero pct) (or_zero amt)
      in state \<lparr> transactionDiscountPercentage := or_zero pct,
                 transactionDiscountAmount := or_zero amt,
                 subtotalBeforeDiscount := subtotalBeforeDiscount totalsWithTransactionDiscount,
                 totalItemDiscounts := totalItemDiscounts totalsWithTransactionDiscount,
                 transactionDiscount := transactionDiscount totalsWithTransactionDiscount,
                 totalDiscount := totalDiscount totalsWithTransactionDiscount,
                 subtotal := subtotal totalsWithTransactionDiscount \<rparr>)"
| "cartReducer ar state (REMOVE_ITEM pid) =
     (let filteredItems = filter (\<lambda>item. item_id item \<noteq> pid) (items state)
      in spread_totals state filteredItems (stateTotals ar state filteredItems))"
| "cartReducer ar state CLEAR_CART =
     \<lparr> subtotalBeforeDiscount = 0, totalItemDiscounts = 0, transactionDiscount = 0,
       totalDiscount = 0, subtotal = 0,
       items = [], transactionDiscountPercentage = 0, transactionDiscountAmount = 0 \<rparr>"
| "cartReducer ar state OTHER = state"

text \<open>The state \<^verbatim>\<open>useReducer\<close> starts from, and the state after a list of actions.\<close>

definition initial_state :: cart_state where
  "initial_state =
     \<lparr> subtotalBeforeDiscount = 0, totalItemDiscounts = 0, transactionDiscount = 0,
       totalDiscount = 0, subtotal = 0,
       items = [], transactionDiscountPercentage = 0, transactionDiscountAmount = 0 \<rparr>"

definition run :: "arithmetic \<Rightarrow> action list \<Rightarrow> cart_state" where
  "run ar acts = foldl (cartReducer ar) initial_state acts"

text \<open>The five totals a state stores.\<close>

definition stored_totals :: "cart_state \<Rightarrow> totals" where
  "stored_totals state =
     \<lparr> subtotalBeforeDiscount = subtotalBeforeDiscount state,
       totalItemDiscounts = totalItemDiscounts state,
       transactionDiscount = transactionDiscount state,
       totalDiscount = totalDiscount state,
       subtotal = subtotal state \<rparr>"

text \<open>
  The quantities of the pricing rules, per line: the gross of a line, and its discount, as
  \<^verbatim>\<open>calculateItemSubtotal\<close> computes them.
\<close>

definition grossLine :: "arithmetic \<Rightarrow> cart_item \<Rightarrow> rat" where
  "grossLine ar item = muln ar (of_int (quantity item)) (unit_price item)"

definition percentDiscount :: "arithmetic \<Rightarrow> cart_item \<Rightarrow> rat" where
  "percentDiscount ar item = muln ar (grossLine ar item) (divn ar (discount_percentage item) 100)"

definition lineDiscount :: "arithmetic \<Rightarrow> cart_item \<Rightarrow> rat" where
  "lineDiscount ar item = addn ar (percentDiscount ar item) (discount_amount item)"

text \<open>The two sums of \<^verbatim>\<open>calculateTotals\<close>, as its two \<^verbatim>\<open>reduce\<close> calls accumulate them.\<close>

definition grossSubtotal :: "arithmetic \<Rightarrow> cart_item list \<Rightarrow> rat" where
  "grossSubtotal ar its = foldl (\<lambda>sum item. addn ar sum (grossLine ar item)) 0 its"

definition lineDiscountTotal :: "arithmetic \<Rightarrow> cart_item list \<Rightarrow> rat" where
  "lineDiscountTotal ar its =
     foldl (\<lambda>sum item. addn ar (addn ar sum (percentDiscount ar item)) (discount_amount item))
       0 its"

subsection \<open>Properties of a state\<close>

text \<open>
  A state is \<open>recomputed\<close> when the five totals it stores are what \<^verbatim>\<open>calculateTotals\<close>
  returns on its items and its two order-level discounts; its lines are recomputed when
  every stored line subtotal is what \<^verbatim>\<open>calculateItemSubtotal\<close> returns on that line.
\<close>

definition recomputed :: "arithmetic \<Rightarrow> cart_state \<Rightarrow> bool" where
  "recomputed ar state \<longleftrightarrow>
     stored_totals state =
       calculateTotals ar (items state) (transactionDiscountPercentage state)
         (transactionDiscountAmount state)"

definition lines_recomputed :: "arithmetic \<Rightarrow> cart_state \<Rightarrow> bool" where
  "lines_recomputed ar state \<longleftrightarrow>
     list_all (\<lambda>item. item_subtotal item = itemSubtotalOf ar item) (items state)"

text \<open>
  The screen dispatches \<^verbatim>\<open>ADD_ITEM\<close> with quantity \<^verbatim>\<open>1\<close> only; \<open>positive_add\<close> says that
  the quantity of an \<^verbatim>\<open>ADD_ITEM\<close> is positive, \<open>quantities_positive\<close> that no line of a
  state has a quantity of zero or less.
\<close>

fun positive_add :: "action \<Rightarrow> bool" where
  "positive_add (ADD_ITEM p) = (0 < quantity p)"
| "positive_add _ = True"

definition quantities_positive :: "cart_state \<Rightarrow> bool" where
  "quantities_positive state \<longleftrightarrow> list_all (\<lambda>item. 0 < quantity item) (items state)"

section \<open>The payload of a sale (pos_frontend/src/services/api.js)\<close>

text \<open>
  \<^verbatim>\<open>createTransaction(items, paymentMethod, cashReceived, changeAmount, discountPercentage,
  discountAmount)\<close> builds an object and posts it. The model is the object built; the
  request and the answer of the server are not modelled. An argument that is \<^verbatim>\<open>null\<close>
  or \<^verbatim>\<open>undefined\<close> is \<open>None\<close>, a property that is not set in the payload is \<open>None\<close>.
  Numbers are passed as numbers (\<^verbatim>\<open>parseFloat\<close> of a number is that number).
\<close>

record item_arg =
  arg_product_id :: "nat option"
  arg_id :: "nat option"
  arg_quantity :: int
  arg_discount_percentage :: "rat option"
  arg_discount_amount :: "rat option"

record item_payload =
  sent_product_id :: "nat option"
  sent_quantity :: int
  sent_discount_percentage :: "rat option"
  sent_discount_amount :: "rat option"

record transaction_payload =
  sent_items :: "item_payload list"
  payment_method :: string
  order_discount_percentage :: "rat option"
  order_discount_amount :: "rat option"
  cash_received :: "rat option"
  change_amount :: "rat option"

text \<open>\<^verbatim>\<open>item.product_id || item.id\<close>\<close>

fun id_or :: "nat option \<Rightarrow> nat option \<Rightarrow> nat option" where
  "id_or None other = other"
| "id_or (Some v) other = (if v = 0 then other else Some v)"

text \<open>
  \<^verbatim>\<open>if (v && parseFloat(v) > 0) payload.k = parseFloat(v)\<close>: the property is set, to the
  value itself, when the value is there, is not \<^verbatim>\<open>0\<close> and is greater than \<^verbatim>\<open>0\<close>.
\<close>

fun if_positive :: "rat option \<Rightarrow> rat option" where
  "if_positive None = None"
| "if_positive (Some v) = (if v \<noteq> 0 \<and> 0 < v then Some v else None)"

text \<open>
  \<^verbatim>\<open>Math.round(v * 100) / 100\<close>: the product and the quotient are operations of the
  arithmetic; \<^verbatim>\<open>Math.round\<close> gives the integer nearest to its argument, a half upwards,
  without rounding error.
\<close>

definition math_round :: "rat \<Rightarrow> int" where
  "math_round x = \<lfloor>x + 1 / 2\<rfloor>"

definition round2 :: "arithmetic \<Rightarrow> rat \<Rightarrow> rat" where
  "round2 ar v = divn ar (of_int (math_round (muln ar v 100))) 100"

definition createTransaction_payload ::
  "arithmetic \<Rightarrow> item_arg list \<Rightarrow> string \<Rightarrow> rat option \<Rightarrow> rat option \<Rightarrow> rat option
     \<Rightarrow> rat option \<Rightarrow> transaction_payload" where
  "createTransaction_payload ar its paymentMethod cashReceived changeAmount
       discountPercentage discountAmount =
     \<lparr> sent_items =
         map (\<lambda>item.
                \<lparr> sent_product_id = id_or (arg_product_id item) (arg_id item),
                  sent_quantity = arg_quantity item,
                  sent_discount_percentage = if_positive (arg_discount_percentage item),
                  sent_discount_amount = if_positive (arg_discount_amount item) \<rparr>) its,
       payment_method = paymentMethod,
       order_discount_percentage = if_positive discountPercentage,
       order_discount_amount = if_positive discountAmount,
       cash_received =
         (if paymentMethod = ''Cash'' \<and> cashReceived \<noteq> None
          then map_option (round2 ar) cashReceived else None),
       change_amount =
         (if paymentMethod = ''Cash'' \<and> cashReceived \<noteq> None \<and> changeAmount \<noteq> None
          then map_option (round2 ar) changeAmount else None) \<rparr>"

text \<open>
  What \<^verbatim>\<open>createTransaction\<close> reads of a cart item (the screen passes \<^verbatim>\<open>cartState.items\<close>):
  there is no \<^verbatim>\<open>product_id\<close>, the two discounts are numbers.
\<close>

definition as_item_arg :: "cart_item \<Rightarrow> item_arg" where
  "as_item_arg item =
     \<lparr> arg_product_id = None, arg_id = Some (item_id item), arg_quantity = quantity item,
       arg_discount_percentage = Some (discount_percentage item),
       arg_discount_amount = Some (discount_amount item) \<rparr>"

text \<open>A decimal number with at most two decimal places: a whole number of hundredths.\<close>

definition two_decimals :: "rat \<Rightarrow> bool" where
  "two_decimals v \<longleftrightarrow> of_int \<lfloor>v * 100\<rfloor> = v * 100"

section \<open>Sample carts\<close>

text \<open>
  Prices are the doubles the product lookup gives: 10 and 1.5 are doubles, the price typed
  as 0.10 is \<open>fl (1 / 10)\<close>, the one typed as 1.15 is \<open>fl (115 / 100)\<close>.
\<close>

definition milk :: product_payload where
  "milk = \<lparr> item_id = 1, sku = ''SKU-1'', name = ''Milk'', unit_price = 10, quantity = 2 \<rparr>"

definition bread :: product_payload where
  "bread = \<lparr> item_id = 2, sku = ''SKU-2'', name = ''Bread'', unit_price = 3 / 2, quantity = 1 \<rparr>"

definition rolls :: product_payload where
  "rolls = \<lparr> item_id = 3, sku = ''SKU-3'', name = ''Rolls'', unit_price = 3 / 2, quantity = 1 \<rparr>"

definition gum :: product_payload where
  "gum = \<lparr> item_id = 4, sku = ''SKU-4'', name = ''Gum'', unit_price = fl (1 / 10), quantity = 1 \<rparr>"

definition tea :: product_payload where
  "tea = \<lparr> item_id = 5, sku = ''SKU-5'', name = ''Tea'', unit_price = fl (115 / 100), quantity = 1 \<rparr>"

definition milk_line :: cart_item where
  "milk_line = \<lparr> item_id = 1, sku = ''SKU-1'', name = ''Milk'', unit_price = 10, quantity = 2,
          discount_percentage = 0, discount_amount = 0, item_subtotal = 20 \<rparr>"

definition bread_line :: cart_item where
  "bread_line = \<lparr> item_id = 2, sku = ''SKU-2'', name = ''Bread'', unit_price = 3 / 2, quantity = 1,
          discount_percentage = 0, discount_amount = 0, item_subtotal = 3 / 2 \<rparr>"

definition overdiscounted :: "action list" where
  "overdiscounted = [ADD_ITEM milk, UPDATE_ITEM_DISCOUNT 1 (Some 10) (Some 30)]"

text \<open>Milk and bread, with an order discount of 10 percent and 5.\<close>

definition order_discounted :: "action list" where
  "order_discounted =
     [ADD_ITEM milk, ADD_ITEM bread, UPDATE_TRANSACTION_DISCOUNT (Some 10) (Some 5)]"

text \<open>One bread and two rolls, each line with 5 percent and 1.00 off.\<close>

definition two_discounts :: "action list" where
  "two_discounts =
     [ADD_ITEM bread, ADD_ITEM rolls, ADD_ITEM rolls,
      UPDATE_ITEM_DISCOUNT 2 (Some 5) (Some 1), UPDATE_ITEM_DISCOUNT 3 (Some 5) (Some 1)]"

text \<open>Gum with 5 percent off, and tea.\<close>

definition gum_and_tea :: "action list" where
  "gum_and_tea = [ADD_ITEM gum, ADD_ITEM tea, UPDATE_ITEM_DISCOUNT 4 (Some 5) (Some 0)]"

section \<open>Facts about the rounding\<close>

lemma pow2_powi: "pow2 e = 2 powi e"
  by (simp add: pow2_def power_int_def power_one_over inverse_eq_divide)

lemma pow2_pos [simp]: "0 < pow2 e"
  by (simp add: pow2_powi)

lemma pow2_nonneg [simp]: "0 \<le> pow2 e"
  by (rule less_imp_le) (rule pow2_pos)

lemma pow2_neq0 [simp]: "pow2 e \<noteq> 0"
  using pow2_pos [of e] by (rule less_imp_neq [symmetric])

lemma pow2_add: "pow2 (a + b) = pow2 a * pow2 b"
  by (simp add: pow2_powi power_int_add)

lemma pow2_mono: "a \<le> b \<Longrightarrow> pow2 a \<le> pow2 b"
  by (simp add: pow2_powi power_int_increasing)

lemma pow2_strict_mono: "a < b \<Longrightarrow> pow2 a < pow2 b"
  by (simp add: pow2_powi power_int_strict_increasing)

lemma pow2_less_iff: "pow2 a < pow2 b \<longleftrightarrow> a < b"
  using pow2_mono [of b a] pow2_strict_mono [of a b] by (cases "a < b") auto

lemma pow2_le_iff: "pow2 a \<le> pow2 b \<longleftrightarrow> a \<le> b"
  using pow2_mono [of a b] pow2_strict_mono [of b a] by (cases "a \<le> b") auto

lemma pow2_nat: "pow2 (int n) = 2 ^ n"
  by (simp add: pow2_def)

lemma ilog2_bounds:
  assumes "0 < x"
  shows "pow2 (ilog2 x) \<le> x" and "x < pow2 (ilog2 x + 1)"
proof -
  have "pow2 (ilog2 x) \<le> x \<and> x < pow2 (ilog2 x + 1)"
  proof (cases "1 \<le> x")
    case True
    define n where "n = \<lfloor>x\<rfloor>"
    have n: "1 \<le> n" using True by (simp add: n_def)
    then have b: "2 ^ nat (bitlen n - 1) \<le> n" "n < 2 ^ nat (bitlen n)"
      using bitlen_bounds [of n] by simp_all
    have b1: "1 \<le> bitlen n" using n by (simp add: bitlen_alt_def)
    have il: "ilog2 x = bitlen n - 1" using True by (simp add: ilog2_def n_def)
    have "pow2 (bitlen n - 1) = 2 ^ nat (bitlen n - 1)"
      using b1 by (simp add: pow2_def)
    also have "\<dots> \<le> of_int n" using b(1) by (metis of_int_le_iff of_int_numeral of_int_power)
    also have "\<dots> \<le> x" by (simp add: n_def)
    finally have lo: "pow2 (ilog2 x) \<le> x" by (simp add: il)
    have "n + 1 \<le> 2 ^ nat (bitlen n)" using b(2) by simp
    then have "of_int (n + 1) \<le> (2 ^ nat (bitlen n) :: rat)"
      by (metis of_int_le_iff of_int_numeral of_int_power)
    moreover have "x < of_int (n + 1)" using floor_correct [of x] by (simp add: n_def)
    ultimately have "x < 2 ^ nat (bitlen n)" by simp
    moreover have "pow2 (ilog2 x + 1) = 2 ^ nat (bitlen n)"
      using b1 by (simp add: il pow2_def)
    ultimately show ?thesis using lo by simp
  next
    case False
    define y where "y = 1 / x"
    define n where "n = \<lceil>y\<rceil>"
    have y: "1 < y" using False assms by (simp add: y_def)
    then have n: "2 \<le> n" by (simp add: n_def le_ceiling_iff)
    define c where "c = bitlen (n - 1)"
    have b: "2 ^ nat (c - 1) \<le> n - 1" "n - 1 < 2 ^ nat c"
      using bitlen_bounds [of "n - 1"] n by (simp_all add: c_def)
    have c1: "1 \<le> c" using n by (simp add: c_def bitlen_alt_def)
    have il: "ilog2 x = - c" using False by (simp add: ilog2_def c_def n_def y_def)
    have "n \<le> 2 ^ nat c" using b(2) by simp
    then have "of_int n \<le> (2 ^ nat c :: rat)" by (metis of_int_le_iff of_int_numeral of_int_power)
    moreover have "y \<le> of_int n" by (simp add: n_def)
    ultimately have "y \<le> 2 ^ nat c" by linarith
    then have "1 / 2 ^ nat c \<le> x"
      using assms by (simp add: y_def field_simps)
    moreover have "pow2 (- c) = 1 / 2 ^ nat c" using c1 by (simp add: pow2_def)
    ultimately have lo: "pow2 (ilog2 x) \<le> x" by (simp add: il)
    have "of_int (n - 1) < y" by (simp add: n_def less_ceiling_iff [symmetric] del: of_int_diff)
    moreover have "(2 ^ nat (c - 1) :: rat) \<le> of_int (n - 1)"
      using b(1) by (metis of_int_le_iff of_int_numeral of_int_power)
    ultimately have "2 ^ nat (c - 1) < y" by simp
    then have "x < 1 / 2 ^ nat (c - 1)"
      using assms by (simp add: y_def field_simps)
    moreover have "pow2 (- c + 1) = 1 / 2 ^ nat (c - 1)"
      using c1 by (auto simp: pow2_def)
    ultimately show ?thesis using lo by (simp add: il)
  qed
  then show "pow2 (ilog2 x) \<le> x" and "x < pow2 (ilog2 x + 1)" by simp_all
qed

lemma ilog2_unique:
  assumes "pow2 k \<le> x" and "x < pow2 (k + 1)"
  shows "ilog2 x = k"
proof -
  have x: "0 < x" using assms(1) pow2_pos [of k] by linarith
  from ilog2_bounds [OF x] assms
  have "pow2 (ilog2 x) < pow2 (k + 1)" "pow2 k < pow2 (ilog2 x + 1)" by linarith+
  then show ?thesis by (simp add: pow2_less_iff)
qed

lemma round_even_of_int [simp]: "round_even (of_int n) = n"
  by (simp add: round_even_def)

lemma round_even_le: "m \<le> of_int N \<Longrightarrow> round_even m \<le> N"
  by (auto simp: round_even_def Let_def floor_le_iff)

lemma round_even_ge:
  assumes "of_int N \<le> m"
  shows "N \<le> round_even m"
proof -
  from assms have "N \<le> \<lfloor>m\<rfloor>" by (simp add: le_floor_iff)
  then show ?thesis by (simp add: round_even_def Let_def)
qed

lemma fl_0 [simp]: "fl 0 = 0"
  by (simp add: fl_def)

lemma fl_nonneg: "0 \<le> x \<Longrightarrow> 0 \<le> fl x"
proof -
  assume x: "0 \<le> x"
  have "0 \<le> (of_int (round_even (x / pow2 e)) :: rat) * pow2 e" for e
  proof (intro mult_nonneg_nonneg)
    have "0 \<le> round_even (x / pow2 e)" using x by (intro round_even_ge) simp
    then show "0 \<le> (of_int (round_even (x / pow2 e)) :: rat)" by simp
    show "0 \<le> pow2 e" by simp
  qed
  then show ?thesis by (simp add: fl_def Let_def)
qed

lemma fl_nonpos: "x \<le> 0 \<Longrightarrow> fl x \<le> 0"
proof -
  assume x: "x \<le> 0"
  have "(of_int (round_even (x / pow2 e)) :: rat) * pow2 e \<le> 0" for e
  proof (intro mult_nonpos_nonneg)
    have "round_even (x / pow2 e) \<le> 0"
      using x by (intro round_even_le) (simp add: divide_nonpos_pos)
    then show "(of_int (round_even (x / pow2 e)) :: rat) \<le> 0" by simp
    show "0 \<le> pow2 e" by simp
  qed
  then show ?thesis by (simp add: fl_def Let_def)
qed

lemma fl_representable:
  assumes m: "\<bar>m\<bar> \<le> 2 ^ 53" and e: "- 1074 \<le> e"
  shows "fl (of_int m * pow2 e) = of_int m * pow2 e"
proof (cases "m = 0")
  case True
  then show ?thesis by simp
next
  case False
  define y where "y = of_int m * pow2 e"
  define a :: rat where "a = of_int \<bar>m\<bar>"
  have a1: "1 \<le> a" using False by (simp add: a_def)
  then have a0: "0 < a" by simp
  define j where "j = ilog2 a"
  have jb: "pow2 j \<le> a" "a < pow2 (j + 1)"
    using ilog2_bounds [OF a0] by (simp_all add: j_def)
  have a53: "a \<le> pow2 53"
    using m by (simp add: a_def pow2_def)
  have "pow2 0 < pow2 (j + 1)" using a1 jb(2) by (simp add: pow2_def)
  then have j0: "0 \<le> j" by (simp add: pow2_less_iff)
  have "pow2 j \<le> pow2 53" using jb(1) a53 by simp
  then have j53: "j \<le> 53" by (simp add: pow2_le_iff)
  have absy: "\<bar>y\<bar> = a * pow2 e" by (simp add: y_def a_def abs_mult)
  have "ilog2 \<bar>y\<bar> = j + e"
  proof (rule ilog2_unique)
    show "pow2 (j + e) \<le> \<bar>y\<bar>" using jb(1) by (simp add: absy pow2_add)
    have "a * pow2 e < pow2 (j + 1) * pow2 e" using jb(2) by simp
    then show "\<bar>y\<bar> < pow2 (j + e + 1)"
      by (simp add: absy pow2_add [symmetric] algebra_simps)
  qed
  define e' where "e' = max (j + e - 52) (- 1074)"
  have y0: "y \<noteq> 0" using False by (simp add: y_def)
  have fly: "fl y = of_int (round_even (y / pow2 e')) * pow2 e'"
    using y0 \<open>ilog2 \<bar>y\<bar> = j + e\<close> by (simp add: fl_def Let_def e'_def)
  have "\<exists>n. y / pow2 e' = of_int n"
  proof (cases "j \<le> 52")
    case True
    with e have le: "e' \<le> e" by (simp add: e'_def)
    have "pow2 e = pow2 (e - e') * pow2 e'" by (simp add: pow2_add [symmetric])
    then have "y / pow2 e' = of_int m * pow2 (e - e')" by (simp add: y_def)
    also have "pow2 (e - e') = 2 ^ nat (e - e')" using le by (simp add: pow2_def)
    finally have "y / pow2 e' = of_int (m * 2 ^ nat (e - e'))" by simp
    then show ?thesis ..
  next
    case False
    with j53 have j: "j = 53" by simp
    with jb(1) a53 have "a = pow2 53" by simp
    then have am: "\<bar>m\<bar> = 2 ^ 53"
      by (simp add: a_def pow2_def)
    from j e have e': "e' = e + 1" by (simp add: e'_def)
    have "pow2 1 = 2" by (simp add: pow2_def)
    then have "pow2 e' = 2 * pow2 e" by (simp add: e' pow2_add)
    then have "y / pow2 e' = of_int m / 2" by (simp add: y_def)
    moreover have "2 dvd \<bar>m\<bar>" by (simp add: am)
    then have "2 dvd m" by (simp only: dvd_abs_iff)
    then have "m = 2 * (m div 2)" by simp
    then have "of_int m / 2 = (of_int (m div 2) :: rat)"
      by (metis nonzero_mult_div_cancel_left of_int_mult of_int_numeral zero_neq_numeral)
    ultimately show ?thesis by auto
  qed
  then obtain n where n: "y / pow2 e' = of_int n" ..
  then have "fl y = (y / pow2 e') * pow2 e'" by (simp add: fly)
  then show ?thesis by (simp add: y_def)
qed

lemma fl_is_representable:
  "\<exists>m e. fl x = of_int m * pow2 e \<and> \<bar>m\<bar> \<le> 2 ^ 53 \<and> - 1074 \<le> e"
proof (cases "x = 0")
  case True
  then show ?thesis by (intro exI [of _ 0]) auto
next
  case False
  define k where "k = ilog2 \<bar>x\<bar>"
  define e where "e = max (k - 52) (- 1074)"
  define m where "m = round_even (x / pow2 e)"
  have fl: "fl x = of_int m * pow2 e"
    using False by (simp add: fl_def Let_def m_def e_def k_def)
  have x0: "0 < \<bar>x\<bar>" using False by simp
  have "\<bar>x\<bar> < pow2 (k + 1)" using ilog2_bounds(2) [OF x0] by (simp add: k_def)
  also have "\<dots> \<le> pow2 (53 + e)" by (rule pow2_mono) (simp add: e_def)
  finally have "\<bar>x\<bar> < pow2 53 * pow2 e" by (simp add: pow2_add)
  then have "\<bar>x\<bar> / pow2 e < pow2 53" by (simp add: field_simps)
  then have b: "\<bar>x / pow2 e\<bar> < 2 ^ 53" by (simp add: pow2_def)
  then have "x / pow2 e \<le> 2 ^ 53" "- (2 ^ 53) \<le> x / pow2 e"
    by linarith+
  then have "x / pow2 e \<le> of_int (2 ^ 53)" "of_int (- (2 ^ 53)) \<le> x / pow2 e"
    by simp_all
  then have "m \<le> 2 ^ 53" "- (2 ^ 53) \<le> m"
    unfolding m_def by (simp_all only: round_even_le round_even_ge)
  then have "\<bar>m\<bar> \<le> 2 ^ 53" by simp
  moreover have "- 1074 \<le> e" by (simp add: e_def)
  ultimately show ?thesis using fl by blast
qed

lemma fl_idem [simp]: "fl (fl x) = fl x"
proof -
  obtain m e where "fl x = of_int m * pow2 e" "\<bar>m\<bar> \<le> 2 ^ 53" "- 1074 \<le> e"
    using fl_is_representable by blast
  then show ?thesis by (simp add: fl_representable)
qed

section \<open>Facts about the two arithmetics\<close>

lemma rnd_0 [simp]: "rnd ar 0 = 0"
  by (cases ar) simp_all

lemma rnd_idem [simp]: "rnd ar (rnd ar x) = rnd ar x"
  by (cases ar) simp_all

lemma rnd_nonneg: "0 \<le> x \<Longrightarrow> 0 \<le> rnd ar x"
  by (cases ar) (simp_all add: fl_nonneg)

lemma rnd_nonpos: "x \<le> 0 \<Longrightarrow> rnd ar x \<le> 0"
  by (cases ar) (simp_all add: fl_nonpos)

text \<open>The roundings the sample carts need.\<close>

lemma fl_values:
  "fl (- 50) = - 50"
  "fl (- 12) = - 12"
  "fl (1 / 200) = 5764607523034235 / 1152921504606846976"
  "fl (12980742146337070512478121581609 / 2596148429267413814265248164610048) = 1441151880758559 / 288230376151711744"
  "fl (1441151880758559 / 288230376151711744) = 1441151880758559 / 288230376151711744"
  "fl (1 / 100) = 5764607523034235 / 576460752303423488"
  "fl (1 / 20) = 3602879701896397 / 72057594037927936"
  "fl (10808639105689191 / 144115188075855872) = 1351079888211149 / 18014398509481984"
  "fl (1351079888211149 / 18014398509481984) = 1351079888211149 / 18014398509481984"
  "fl (3422735716801577 / 36028797018963968) = 3422735716801577 / 36028797018963968"
  "fl (27381885734412617 / 288230376151711744) = 3422735716801577 / 36028797018963968"
  "fl (1 / 10) = 3602879701896397 / 36028797018963968"
  "fl (3602879701896397 / 36028797018963968) = 3602879701896397 / 36028797018963968"
  "fl (1 / 8) = 1 / 8"
  "fl (13 / 100) = 1170935903116329 / 9007199254740992"
  "fl (10808639105689191 / 72057594037927936) = 1351079888211149 / 9007199254740992"
  "fl (1914029841632461 / 4503599627370496) = 1914029841632461 / 4503599627370496"
  "fl (1 / 2) = 1 / 2"
  "fl (144115188075855875 / 288230376151711744) = 1 / 2"
  "fl (1) = 1"
  "fl (1131529406376837 / 1125899906842624) = 1131529406376837 / 1125899906842624"
  "fl (201 / 200) = 1131529406376837 / 1125899906842624"
  "fl (4841369599423283 / 4503599627370496) = 4841369599423283 / 4503599627370496"
  "fl (19365478397693133 / 18014398509481984) = 4841369599423283 / 4503599627370496"
  "fl (2589569785738035 / 2251799813685248) = 2589569785738035 / 2251799813685248"
  "fl (23 / 20) = 2589569785738035 / 2251799813685248"
  "fl (10358279142952141 / 9007199254740992) = 2589569785738035 / 2251799813685248"
  "fl (11033819087057715 / 9007199254740992) = 2758454771764429 / 2251799813685248"
  "fl (44855852288610137 / 36028797018963968) = 5606981536076267 / 4503599627370496"
  "fl (358846818308881121 / 288230376151711744) = 1401745384019067 / 1125899906842624"
  "fl (1401745384019067 / 1125899906842624) = 1401745384019067 / 1125899906842624"
  "fl (45035996273704957 / 36028797018963968) = 5 / 4"
  "fl (5 / 4) = 5 / 4"
  "fl (3 / 2) = 3 / 2"
  "fl (4165829655317709 / 2251799813685248) = 4165829655317709 / 2251799813685248"
  "fl (2) = 2"
  "fl (18014398509481985 / 9007199254740992) = 2"
  "fl (4841369599423283 / 2251799813685248) = 4841369599423283 / 2251799813685248"
  "fl (154923827181545071 / 72057594037927936) = 4841369599423283 / 2251799813685248"
  "fl (10020509170899353 / 4503599627370496) = 1252563646362419 / 562949953421312"
  "fl (5010254585449677 / 2251799813685248) = 5010254585449677 / 2251799813685248"
  "fl (5122844576133939 / 2251799813685248) = 5122844576133939 / 2251799813685248"
  "fl (10245689152267879 / 4503599627370496) = 1280711144033485 / 562949953421312"
  "fl (3) = 3"
  "fl (3856207180935987 / 1125899906842624) = 3856207180935987 / 1125899906842624"
  "fl (15424828723743949 / 4503599627370496) = 3856207180935987 / 1125899906842624"
  "fl (4) = 4"
  "fl (9 / 2) = 9 / 2"
  "fl (5) = 5"
  "fl (7) = 7"
  "fl (16100368667849523 / 2251799813685248) = 4025092166962381 / 562949953421312"
  "fl (9) = 9"
  "fl (10) = 10"
  "fl (2111 / 200) = 1485484189590487 / 140737488355328"
  "fl (264 / 25) = 5944751508129055 / 562949953421312"
  "fl (11) = 11"
  "fl (25 / 2) = 25 / 2"
  "fl (13) = 13"
  "fl (14) = 14"
  "fl (8078331831595827 / 562949953421312) = 8078331831595827 / 562949953421312"
  "fl (2019582957898957 / 140737488355328) = 2019582957898957 / 140737488355328"
  "fl (16) = 16"
  "fl (18) = 18"
  "fl (43572326394809549 / 2251799813685248) = 2723270399675597 / 140737488355328"
  "fl (159 / 8) = 159 / 8"
  "fl (20) = 20"
  "fl (43 / 2) = 43 / 2"
  "fl (30) = 30"
  "fl (63 / 2) = 63 / 2"
  "fl (32) = 32"
  "fl (717 / 20) = 5045438957538509 / 140737488355328"
  "fl (5046142644980285 / 140737488355328) = 5046142644980285 / 140737488355328"
  "fl (7171 / 200) = 5046142644980285 / 140737488355328"
  "fl (40) = 40"
  "fl (83 / 2) = 83 / 2"
  "fl (28288235159420925 / 281474976710656) = 7072058789855231 / 70368744177664"
  "fl (37137104739762175 / 35184372088832) = 2111 / 2"
  "fl (126153566124507125 / 35184372088832) = 7884597882781695 / 2199023255552"
  by code_simp+


lemma fl_hundredth: "fl (1 / 100) = 5764607523034235 / 576460752303423488"
  by (rule fl_values)

lemma litn_hundredth: "1 / 100 \<le> litn ar (1 / 100)"
  by (cases ar) (simp_all add: litn_def fl_hundredth)

lemma litn_hundredth_pos: "0 < litn ar (1 / 100)"
  using litn_hundredth [of ar] by simp

lemma addn_0_0 [simp]: "addn ar 0 0 = 0"
  by (simp add: addn_def)

lemma subn_0_0 [simp]: "subn ar 0 0 = 0"
  by (simp add: subn_def)

lemma muln_0_right [simp]: "muln ar a 0 = 0"
  by (simp add: muln_def)

lemma muln_0_left [simp]: "muln ar 0 a = 0"
  by (simp add: muln_def)

lemma divn_0 [simp]: "divn ar 0 b = 0"
  by (simp add: divn_def)

lemma subn_muln_0 [simp]: "subn ar (muln ar a b) 0 = muln ar a b"
  by (simp add: subn_def muln_def)

lemma subn_sign:
  "b \<le> a \<Longrightarrow> 0 \<le> subn ar a b" "a \<le> b \<Longrightarrow> subn ar a b \<le> 0"
  by (simp_all add: subn_def rnd_nonneg rnd_nonpos)

lemma Decimal_ops [simp]:
  "addn Decimal a b = a + b" "subn Decimal a b = a - b" "muln Decimal a b = a * b"
  "divn Decimal a b = a / b" "litn Decimal x = x"
  by (simp_all add: addn_def subn_def muln_def divn_def litn_def)

section \<open>Facts about the helpers\<close>

lemma or_zero_Some [simp]: "or_zero (Some v) = v"
  by simp

lemma foldl_gross:
  "foldl (\<lambda>sum item. addn ar sum (muln ar (of_int (quantity item)) (unit_price item))) a its
     = foldl (\<lambda>sum item. addn ar sum (grossLine ar item)) a its"
  by (simp add: grossLine_def)

lemma foldl_lineDiscount:
  "foldl (\<lambda>sum item.
            let baseSubtotal = muln ar (of_int (quantity item)) (unit_price item);
                discountPct = or_zero (Some (discount_percentage item));
                discountAmt = or_zero (Some (discount_amount item));
                percentageDiscount = muln ar baseSubtotal (divn ar discountPct 100)
            in addn ar (addn ar sum percentageDiscount) discountAmt) a its
    = foldl (\<lambda>sum item. addn ar (addn ar sum (percentDiscount ar item)) (discount_amount item))
        a its"
  by (simp add: Let_def percentDiscount_def grossLine_def)

lemma calculateTotals_sums:
  "calculateTotals ar its p a =
    (let subtotalAfterItemDiscounts = subn ar (grossSubtotal ar its) (lineDiscountTotal ar its);
         transactionPercentageDiscount = muln ar subtotalAfterItemDiscounts (divn ar p 100)
     in \<lparr> subtotalBeforeDiscount = grossSubtotal ar its,
          totalItemDiscounts = lineDiscountTotal ar its,
          transactionDiscount = addn ar transactionPercentageDiscount a,
          totalDiscount = addn ar (addn ar (lineDiscountTotal ar its) transactionPercentageDiscount) a,
          subtotal = max (litn ar (1 / 100))
                       (subn ar (subn ar subtotalAfterItemDiscounts transactionPercentageDiscount) a) \<rparr>)"
  unfolding calculateTotals_def foldl_gross foldl_lineDiscount grossSubtotal_def lineDiscountTotal_def
  by (simp add: Let_def)

lemma calculateTotals_gross:
  "subtotalBeforeDiscount (calculateTotals ar its p a) = grossSubtotal ar its"
  by (simp add: calculateTotals_sums Let_def)

lemma calculateTotals_lineDiscounts:
  "totalItemDiscounts (calculateTotals ar its p a) = lineDiscountTotal ar its"
  by (simp add: calculateTotals_sums Let_def)

lemma calculateTotals_transactionDiscount:
  "transactionDiscount (calculateTotals ar its p a)
     = addn ar (muln ar (subn ar (grossSubtotal ar its) (lineDiscountTotal ar its)) (divn ar p 100)) a"
  by (simp add: calculateTotals_sums Let_def)

lemma calculateTotals_totalDiscount:
  "totalDiscount (calculateTotals ar its p a)
     = addn ar (addn ar (lineDiscountTotal ar its)
         (muln ar (subn ar (grossSubtotal ar its) (lineDiscountTotal ar its)) (divn ar p 100))) a"
  by (simp add: calculateTotals_sums Let_def)

lemma calculateTotals_subtotal:
  "subtotal (calculateTotals ar its p a)
     = max (litn ar (1 / 100))
         (subn ar
            (subn ar (subn ar (grossSubtotal ar its) (lineDiscountTotal ar its))
               (muln ar (subn ar (grossSubtotal ar its) (lineDiscountTotal ar its)) (divn ar p 100)))
            a)"
  by (simp add: calculateTotals_sums Let_def)

lemma sum_gross_Decimal_from:
  "foldl (\<lambda>sum item. sum + grossLine Decimal item) a its
     = a + sum_list (map (grossLine Decimal) its)"
  by (induction its arbitrary: a) simp_all

lemma grossSubtotal_Decimal: "grossSubtotal Decimal its = sum_list (map (grossLine Decimal) its)"
  by (simp add: grossSubtotal_def sum_gross_Decimal_from)

lemma sum_lineDiscount_Decimal_from:
  "foldl (\<lambda>sum item. sum + percentDiscount Decimal item + discount_amount item) a its
     = a + sum_list (map (lineDiscount Decimal) its)"
  by (induction its arbitrary: a) (simp_all add: lineDiscount_def)

lemma lineDiscountTotal_Decimal:
  "lineDiscountTotal Decimal its = sum_list (map (lineDiscount Decimal) its)"
  by (simp add: lineDiscountTotal_def sum_lineDiscount_Decimal_from)


lemma grossLine_Decimal:
  "grossLine Decimal = (\<lambda>item. of_int (quantity item) * unit_price item)"
  by (rule ext) (simp add: grossLine_def)

lemma lineDiscount_Decimal:
  "lineDiscount Decimal
     = (\<lambda>item. of_int (quantity item) * unit_price item * (discount_percentage item / 100)
                 + discount_amount item)"
  by (rule ext) (simp add: lineDiscount_def percentDiscount_def grossLine_def)

subsection \<open>One step of the reducer\<close>

lemma items_spread_totals [simp]: "items (spread_totals s its t) = its"
  by (simp add: spread_totals_def)

lemma pct_spread_totals [simp]:
  "transactionDiscountPercentage (spread_totals s its t) = transactionDiscountPercentage s"
  "transactionDiscountAmount (spread_totals s its t) = transactionDiscountAmount s"
  by (simp_all add: spread_totals_def)

lemma stored_spread_totals [simp]: "stored_totals (spread_totals s its t) = t"
  by (simp add: spread_totals_def stored_totals_def)

lemma recomputed_spread: "recomputed ar (spread_totals s its (stateTotals ar s its))"
  by (simp add: recomputed_def stateTotals_def)

lemma spread_spread:
  "spread_totals (spread_totals s its t) its' t' = spread_totals s its' t'"
  by (simp add: spread_totals_def)

lemma stateTotals_spread: "stateTotals ar (spread_totals s its t) its' = stateTotals ar s its'"
  by (simp add: stateTotals_def)

lemma stored_totals_sel:
  "subtotalBeforeDiscount (stored_totals s) = subtotalBeforeDiscount s"
  "totalItemDiscounts (stored_totals s) = totalItemDiscounts s"
  "transactionDiscount (stored_totals s) = transactionDiscount s"
  "totalDiscount (stored_totals s) = totalDiscount s"
  "subtotal (stored_totals s) = subtotal s"
  by (simp_all add: stored_totals_def)

lemma stored_totals_initial:
  "subtotalBeforeDiscount initial_state = 0" "totalItemDiscounts initial_state = 0"
  "transactionDiscount initial_state = 0" "totalDiscount initial_state = 0"
  "subtotal initial_state = 0" "items initial_state = []"
  "transactionDiscountPercentage initial_state = 0" "transactionDiscountAmount initial_state = 0"
  by (simp_all add: initial_state_def)

lemma calculateTotals_empty:
  "calculateTotals ar [] 0 0 =
     \<lparr> subtotalBeforeDiscount = 0, totalItemDiscounts = 0, transactionDiscount = 0,
       totalDiscount = 0, subtotal = litn ar (1 / 100) \<rparr>"
  using litn_hundredth_pos [of ar] by (simp add: calculateTotals_def max_def)

lemma cartReducer_recomputed:
  "a \<noteq> CLEAR_CART \<Longrightarrow> a \<noteq> OTHER \<Longrightarrow> recomputed ar (cartReducer ar s a)"
proof (cases a)
  case (UPDATE_TRANSACTION_DISCOUNT p q)
  then show ?thesis by (simp add: recomputed_def stored_totals_def Let_def)
qed (simp_all add: recomputed_spread Let_def split: option.split)

lemma cartReducer_CLEAR: "cartReducer ar s CLEAR_CART = initial_state"
  by (simp add: initial_state_def)

lemma cartReducer_lines:
  "lines_recomputed ar s \<Longrightarrow> lines_recomputed ar (cartReducer ar s a)"
  by (cases a)
     (auto simp: lines_recomputed_def list_all_iff Let_def itemSubtotalOf_def
        calculateItemSubtotal_def spread_totals_def split: option.split)

lemma find_None_ids: "find (\<lambda>item. item_id item = k) its = None \<longleftrightarrow> k \<notin> item_id ` set its"
  by (auto simp: find_None_iff)


lemma map_id_update:
  "(\<And>item. item_id (f item) = item_id item) \<Longrightarrow>
   map item_id (map (\<lambda>item. if item_id item = k then f item else item) its) = map item_id its"
  by (induction its) simp_all

lemma cartReducer_distinct:
  "distinct (map item_id (items s)) \<Longrightarrow> distinct (map item_id (items (cartReducer ar s a)))"
proof (cases a)
  case (ADD_ITEM p)
  assume d: "distinct (map item_id (items s))"
  show ?thesis
  proof (cases "find (\<lambda>item. item_id item = item_id p) (items s)")
    case None
    then have "item_id p \<notin> item_id ` set (items s)" by (simp add: find_None_ids)
    with d None ADD_ITEM show ?thesis by (simp add: Let_def)
  next
    case (Some e)
    have "map item_id (map (\<lambda>item. if item_id item = item_id p
            then item \<lparr> quantity := quantity item + quantity p,
                        item_subtotal :=
                          itemSubtotalOf ar (item \<lparr> quantity := quantity item + quantity p \<rparr>) \<rparr>
            else item) (items s)) = map item_id (items s)"
      by (rule map_id_update) simp
    with d Some ADD_ITEM show ?thesis by (simp add: Let_def del: map_map)
  qed
next
  case (UPDATE_QUANTITY k q)
  assume d: "distinct (map item_id (items s))"
  have "distinct (map item_id (map (\<lambda>item. if item_id item = k
          then item \<lparr> quantity := q, item_subtotal := itemSubtotalOf ar (item \<lparr> quantity := q \<rparr>) \<rparr>
          else item) (items s)))"
    using d by (subst map_id_update) simp_all
  then show ?thesis using UPDATE_QUANTITY by (simp add: Let_def distinct_map_filter del: map_map)
next
  case (UPDATE_ITEM_DISCOUNT k p q)
  assume d: "distinct (map item_id (items s))"
  have "map item_id (map (\<lambda>item. if item_id item = k
          then item \<lparr> discount_percentage := or_zero p, discount_amount := or_zero q,
                      item_subtotal :=
                        itemSubtotalOf ar (item \<lparr> discount_percentage := or_zero p,
                                                 discount_amount := or_zero q \<rparr>) \<rparr>
          else item) (items s)) = map item_id (items s)"
    by (rule map_id_update) simp
  with d UPDATE_ITEM_DISCOUNT show ?thesis by (simp add: Let_def del: map_map)
next
  case (REMOVE_ITEM k)
  assume "distinct (map item_id (items s))"
  with REMOVE_ITEM show ?thesis by (simp add: Let_def distinct_map_filter)
qed (simp_all add: Let_def)

lemma cartReducer_quantities:
  "quantities_positive s \<Longrightarrow> positive_add a \<Longrightarrow> quantities_positive (cartReducer ar s a)"
  by (cases a)
     (auto simp: quantities_positive_def list_all_iff Let_def split: option.split)

lemma itemSubtotalOf_eq:
  "itemSubtotalOf ar item = max 0 (subn ar (grossLine ar item) (lineDiscount ar item))"
  by (simp add: itemSubtotalOf_def calculateItemSubtotal_def Let_def grossLine_def
        percentDiscount_def lineDiscount_def)

lemma not_recomputed_initial: "\<not> recomputed ar initial_state"
  using litn_hundredth_pos [of ar]
  by (simp add: recomputed_def initial_state_def stored_totals_def calculateTotals_empty)


lemma recomputed_fields:
  assumes "recomputed ar s"
  shows "subtotalBeforeDiscount s = grossSubtotal ar (items s)"
    and "totalItemDiscounts s = lineDiscountTotal ar (items s)"
proof -
  from assms have eq: "stored_totals s = calculateTotals ar (items s)
      (transactionDiscountPercentage s) (transactionDiscountAmount s)"
    by (simp add: recomputed_def)
  have "subtotalBeforeDiscount (stored_totals s) = grossSubtotal ar (items s)"
    by (simp only: eq calculateTotals_gross)
  then show "subtotalBeforeDiscount s = grossSubtotal ar (items s)"
    by (simp add: stored_totals_def)
  have "totalItemDiscounts (stored_totals s) = lineDiscountTotal ar (items s)"
    by (simp only: eq calculateTotals_lineDiscounts)
  then show "totalItemDiscounts s = lineDiscountTotal ar (items s)"
    by (simp add: stored_totals_def)
qed

lemma spread_same_iff:
  "spread_totals s (items s) (stateTotals ar s (items s)) = s \<longleftrightarrow> recomputed ar s"
proof
  assume "spread_totals s (items s) (stateTotals ar s (items s)) = s"
  then have "recomputed ar (spread_totals s (items s) (stateTotals ar s (items s))) = recomputed ar s"
    by simp
  then show "recomputed ar s" by (simp add: recomputed_spread)
next
  assume "recomputed ar s"
  then have "stored_totals s = stateTotals ar s (items s)"
    by (simp add: recomputed_def stateTotals_def)
  then have "subtotalBeforeDiscount (stateTotals ar s (items s)) = subtotalBeforeDiscount s"
    "totalItemDiscounts (stateTotals ar s (items s)) = totalItemDiscounts s"
    "transactionDiscount (stateTotals ar s (items s)) = transactionDiscount s"
    "totalDiscount (stateTotals ar s (items s)) = totalDiscount s"
    "subtotal (stateTotals ar s (items s)) = subtotal s"
    by (simp_all add: stored_totals_sel [symmetric])
  then show "spread_totals s (items s) (stateTotals ar s (items s)) = s"
    by (simp add: spread_totals_def)
qed

subsection \<open>Reachable states\<close>

lemma run_Nil [simp]: "run ar [] = initial_state"
  by (simp add: run_def)

lemma run_snoc [simp]: "run ar (acts @ [a]) = cartReducer ar (run ar acts) a"
  by (simp add: run_def)

lemma run_recomputed: "run ar acts = initial_state \<or> recomputed ar (run ar acts)"
proof (induction acts rule: rev_induct)
  case Nil
  show ?case by simp
next
  case (snoc a acts)
  show ?case
  proof (cases "a = CLEAR_CART \<or> a = OTHER")
    case True
    then show ?thesis
    proof
      assume "a = CLEAR_CART"
      then show ?thesis by (simp only: run_snoc cartReducer_CLEAR simp_thms)
    next
      assume "a = OTHER"
      with snoc show ?thesis by simp
    qed
  next
    case False
    then show ?thesis by (simp add: cartReducer_recomputed)
  qed
qed

lemma run_recomputed_iff: "recomputed ar (run ar acts) \<longleftrightarrow> run ar acts \<noteq> initial_state"
  using run_recomputed [of ar acts] not_recomputed_initial [of ar] by auto

lemma run_lines: "lines_recomputed ar (run ar acts)"
  by (induction acts rule: rev_induct)
     (simp_all add: cartReducer_lines, simp add: lines_recomputed_def initial_state_def)

lemma run_distinct: "distinct (map item_id (items (run ar acts)))"
  by (induction acts rule: rev_induct) (simp_all add: cartReducer_distinct, simp add: initial_state_def)

lemma run_quantities: "list_all positive_add acts \<Longrightarrow> quantities_positive (run ar acts)"
proof (induction acts rule: rev_induct)
  case Nil
  show ?case by (simp add: quantities_positive_def initial_state_def)
next
  case (snoc a acts)
  then show ?case by (simp add: cartReducer_quantities)
qed

lemma run_sums:
  "subtotalBeforeDiscount (run ar acts) = grossSubtotal ar (items (run ar acts))"
  "totalItemDiscounts (run ar acts) = lineDiscountTotal ar (items (run ar acts))"
  using run_recomputed [of ar acts] recomputed_fields [of ar "run ar acts"]
  by (auto simp: initial_state_def grossSubtotal_def lineDiscountTotal_def)

lemma run_totals:
  fixes ar :: arithmetic and acts :: "action list"
  defines "s \<equiv> run ar acts"
  defines "t \<equiv> calculateTotals ar (items s) (transactionDiscountPercentage s)
                 (transactionDiscountAmount s)"
  shows "subtotalBeforeDiscount s = subtotalBeforeDiscount t"
    and "totalItemDiscounts s = totalItemDiscounts t"
    and "transactionDiscount s = transactionDiscount t"
    and "totalDiscount s = totalDiscount t"
    and "subtotal s = (if s = initial_state then 0 else subtotal t)"
proof -
  consider "s = initial_state" | "s \<noteq> initial_state" "stored_totals s = t"
    using run_recomputed [of ar acts] by (auto simp: s_def t_def recomputed_def)
  then have "subtotalBeforeDiscount s = subtotalBeforeDiscount t
      \<and> totalItemDiscounts s = totalItemDiscounts t
      \<and> transactionDiscount s = transactionDiscount t
      \<and> totalDiscount s = totalDiscount t
      \<and> subtotal s = (if s = initial_state then 0 else subtotal t)"
  proof cases
    case 1
    then have "t = calculateTotals ar [] 0 0"
      by (simp add: t_def stored_totals_initial)
    with 1 show ?thesis
      by (simp add: stored_totals_initial calculateTotals_empty)
  next
    case 2
    from 2(2) [symmetric] 2(1) show ?thesis by (simp add: stored_totals_sel)
  qed
  then show "subtotalBeforeDiscount s = subtotalBeforeDiscount t"
    and "totalItemDiscounts s = totalItemDiscounts t"
    and "transactionDiscount s = transactionDiscount t"
    and "totalDiscount s = totalDiscount t"
    and "subtotal s = (if s = initial_state then 0 else subtotal t)"
    by simp_all
qed

subsection \<open>The single actions\<close>




lemma filter_positive_update:
  assumes "list_all (\<lambda>item. 0 < quantity item) its"
  shows "filter (\<lambda>item. 0 < quantity item)
           (map (\<lambda>item. if item_id item = k then item \<lparr> quantity := q, item_subtotal := f item \<rparr>
                         else item) its)
         = (if 0 < q
            then map (\<lambda>item. if item_id item = k then item \<lparr> quantity := q, item_subtotal := f item \<rparr>
                              else item) its
            else filter (\<lambda>item. item_id item \<noteq> k) its)"
  using assms by (induction its) auto

lemma UPDATE_QUANTITY_items:
  assumes "quantities_positive s"
  shows "items (cartReducer ar s (UPDATE_QUANTITY k q)) =
           (if 0 < q
            then map (\<lambda>item. if item_id item = k
                         then item \<lparr> quantity := q,
                                     item_subtotal := itemSubtotalOf ar (item \<lparr> quantity := q \<rparr>) \<rparr>
                         else item) (items s)
            else filter (\<lambda>item. item_id item \<noteq> k) (items s))"
  using filter_positive_update [OF assms [unfolded quantities_positive_def],
           where k = k and q = q and f = "\<lambda>item. itemSubtotalOf ar (item \<lparr> quantity := q \<rparr>)"]
  by (simp add: Let_def)

lemma absent_filter: "k \<notin> item_id ` set its \<Longrightarrow> filter (\<lambda>item. item_id item \<noteq> k) its = its"
  by (induction its) auto

lemma absent_update:
  "k \<notin> item_id ` set its \<Longrightarrow> map (\<lambda>item. if item_id item = k then f item else item) its = its"
  by (induction its) auto

lemma UPDATE_QUANTITY_rest:
  "transactionDiscountPercentage (cartReducer ar s (UPDATE_QUANTITY k q)) = transactionDiscountPercentage s"
  "transactionDiscountAmount (cartReducer ar s (UPDATE_QUANTITY k q)) = transactionDiscountAmount s"
  "stored_totals (cartReducer ar s (UPDATE_QUANTITY k q))
     = calculateTotals ar (items (cartReducer ar s (UPDATE_QUANTITY k q)))
         (transactionDiscountPercentage s) (transactionDiscountAmount s)"
  by (simp_all add: Let_def stateTotals_def)

lemma UPDATE_QUANTITY_absent:
  assumes "quantities_positive s" and "k \<notin> item_id ` set (items s)"
  shows "items (cartReducer ar s (UPDATE_QUANTITY k q)) = items s"
    and "cartReducer ar s (UPDATE_QUANTITY k q) = s \<longleftrightarrow> recomputed ar s"
proof -
  show same: "items (cartReducer ar s (UPDATE_QUANTITY k q)) = items s"
    using assms(2)
    by (simp add: UPDATE_QUANTITY_items [OF assms(1)] absent_filter absent_update
          del: cartReducer.simps)
  have "cartReducer ar s (UPDATE_QUANTITY k q)
          = spread_totals s (items (cartReducer ar s (UPDATE_QUANTITY k q)))
              (stateTotals ar s (items (cartReducer ar s (UPDATE_QUANTITY k q))))"
    by (simp add: Let_def)
  then have "cartReducer ar s (UPDATE_QUANTITY k q)
          = spread_totals s (items s) (stateTotals ar s (items s))"
    by (simp only: same)
  then show "cartReducer ar s (UPDATE_QUANTITY k q) = s \<longleftrightarrow> recomputed ar s"
    by (simp only: spread_same_iff)
qed

lemma discount_twice:
  "map (\<lambda>item. if item_id item = k
          then item \<lparr> discount_percentage := p2, discount_amount := a2,
                      item_subtotal :=
                        itemSubtotalOf ar (item \<lparr> discount_percentage := p2, discount_amount := a2 \<rparr>) \<rparr>
          else item)
     (map (\<lambda>item. if item_id item = k
          then item \<lparr> discount_percentage := p1, discount_amount := a1,
                      item_subtotal :=
                        itemSubtotalOf ar (item \<lparr> discount_percentage := p1, discount_amount := a1 \<rparr>) \<rparr>
          else item) its)
   = map (\<lambda>item. if item_id item = k
          then item \<lparr> discount_percentage := p2, discount_amount := a2,
                      item_subtotal :=
                        itemSubtotalOf ar (item \<lparr> discount_percentage := p2, discount_amount := a2 \<rparr>) \<rparr>
          else item) its"
  by (induction its) (simp_all add: itemSubtotalOf_def)

lemma REMOVE_ITEM_rest:
  "items (cartReducer ar s (REMOVE_ITEM k)) = filter (\<lambda>item. item_id item \<noteq> k) (items s)"
  "transactionDiscountPercentage (cartReducer ar s (REMOVE_ITEM k)) = transactionDiscountPercentage s"
  "transactionDiscountAmount (cartReducer ar s (REMOVE_ITEM k)) = transactionDiscountAmount s"
  "stored_totals (cartReducer ar s (REMOVE_ITEM k))
     = calculateTotals ar (items (cartReducer ar s (REMOVE_ITEM k)))
         (transactionDiscountPercentage s) (transactionDiscountAmount s)"
  by (simp_all add: Let_def stateTotals_def)

lemma REMOVE_ITEM_absent:
  assumes "k \<notin> item_id ` set (items s)"
  shows "cartReducer ar s (REMOVE_ITEM k) = s \<longleftrightarrow> recomputed ar s"
proof -
  have "cartReducer ar s (REMOVE_ITEM k) = spread_totals s (items s) (stateTotals ar s (items s))"
    using assms by (simp add: Let_def absent_filter)
  then show ?thesis by (simp only: spread_same_iff)
qed

lemma remove_distinct:
  assumes "distinct (map item_id its)" and "k \<in> item_id ` set its"
  shows "\<exists>before item after. its = before @ item # after \<and> item_id item = k
           \<and> filter (\<lambda>item. item_id item \<noteq> k) its = before @ after"
proof -
  from assms(2) obtain item where "item \<in> set its" and k: "item_id item = k" by auto
  then obtain before after where its: "its = before @ item # after"
    by (auto dest: split_list)
  with assms(1) k have "k \<notin> item_id ` set before" "k \<notin> item_id ` set after"
    by auto
  then have "filter (\<lambda>item. item_id item \<noteq> k) its = before @ after"
    using its k by (simp add: absent_filter)
  with its k show ?thesis by blast
qed

subsection \<open>Sums of line subtotals\<close>

lemma sum_subtotals_eq:
  assumes "\<forall>item \<in> set its. item_subtotal item = itemSubtotalOf Decimal item"
    and "\<forall>item \<in> set its. lineDiscount Decimal item \<le> grossLine Decimal item"
  shows "sum_list (map item_subtotal its)
           = sum_list (map (grossLine Decimal) its) - sum_list (map (lineDiscount Decimal) its)"
  using assms by (induction its) (simp_all add: itemSubtotalOf_eq)

lemma sum_subtotals_ge:
  assumes "\<forall>item \<in> set its. item_subtotal item = itemSubtotalOf Decimal item"
  shows "sum_list (map (grossLine Decimal) its) - sum_list (map (lineDiscount Decimal) its)
           \<le> sum_list (map item_subtotal its)"
  using assms by (induction its) (auto simp: itemSubtotalOf_eq)

lemma sum_subtotals_gt:
  assumes "\<forall>item \<in> set its. item_subtotal item = itemSubtotalOf Decimal item"
    and "\<exists>item \<in> set its. grossLine Decimal item < lineDiscount Decimal item"
  shows "sum_list (map (grossLine Decimal) its) - sum_list (map (lineDiscount Decimal) its)
           < sum_list (map item_subtotal its)"
  using assms
proof (induction its)
  case Nil
  then show ?case by simp
next
  case (Cons x xs)
  have x: "item_subtotal x = max 0 (grossLine Decimal x - lineDiscount Decimal x)"
    using Cons.prems(1) by (simp add: itemSubtotalOf_eq)
  have ge: "sum_list (map (grossLine Decimal) xs) - sum_list (map (lineDiscount Decimal) xs)
           \<le> sum_list (map item_subtotal xs)"
    using Cons.prems(1) by (intro sum_subtotals_ge) simp
  show ?case
  proof (cases "grossLine Decimal x < lineDiscount Decimal x")
    case True
    with x ge show ?thesis by simp
  next
    case False
    with Cons.prems(2) have "\<exists>item \<in> set xs. grossLine Decimal item < lineDiscount Decimal item"
      by auto
    with Cons.IH Cons.prems(1)
    have "sum_list (map (grossLine Decimal) xs) - sum_list (map (lineDiscount Decimal) xs)
           < sum_list (map item_subtotal xs)" by simp
    with x show ?thesis by simp
  qed
qed

lemma line_subtotal_within:
  assumes "lineDiscount ar item \<le> grossLine ar item"
  shows "itemSubtotalOf ar item = subn ar (grossLine ar item) (lineDiscount ar item)"
  using subn_sign(1) [OF assms, of ar] by (simp add: itemSubtotalOf_eq max_def)

lemma line_subtotal_over:
  assumes "grossLine ar item < lineDiscount ar item"
  shows "itemSubtotalOf ar item = 0"
    and "subn ar (grossLine ar item) (lineDiscount ar item) \<le> 0"
proof -
  from assms have "grossLine ar item \<le> lineDiscount ar item" by simp
  then show le: "subn ar (grossLine ar item) (lineDiscount ar item) \<le> 0"
    by (rule subn_sign(2))
  then show "itemSubtotalOf ar item = 0" by (simp add: itemSubtotalOf_eq max_def)
qed

subsection \<open>The sample carts, evaluated\<close>

lemmas arith_defs = addn_def subn_def muln_def divn_def litn_def

lemmas eval_defs = run_def initial_state_def spread_totals_def stateTotals_def
  calculateTotals_def itemSubtotalOf_def calculateItemSubtotal_def Let_def

lemmas sample_defs = milk_def bread_def rolls_def gum_def tea_def milk_line_def bread_line_def
  overdiscounted_def order_discounted_def two_discounts_def gum_and_tea_def

lemma items_two: "items (run Binary64 [ADD_ITEM milk, ADD_ITEM bread]) = [milk_line, bread_line]"
  by (simp add: eval_defs sample_defs arith_defs fl_values)

lemma run_overdiscounted:
  "items (run Binary64 overdiscounted) =
     [milk_line \<lparr> discount_percentage := 10, discount_amount := 30, item_subtotal := 0 \<rparr>]"
  "subtotalBeforeDiscount (run Binary64 overdiscounted) = 20"
  "totalItemDiscounts (run Binary64 overdiscounted) = 32"
  "subtotal (run Binary64 overdiscounted) = fl (1 / 100)"
  by (simp_all add: eval_defs sample_defs arith_defs fl_values)

subsection \<open>The payload\<close>

lemma math_round_nearest:
  "of_int (math_round x) - 1 / 2 \<le> x" "x < of_int (math_round x) + 1 / 2"
  unfolding math_round_def by linarith+

lemma math_round_unique:
  assumes "of_int k - 1 / 2 \<le> x" and "x < of_int k + 1 / 2"
  shows "math_round x = k"
  unfolding math_round_def using assms by (intro floor_unique) simp_all

lemma two_decimals_round2: "two_decimals (round2 Decimal v)"
  by (simp add: two_decimals_def round2_def)

lemma round2_Decimal_close: "\<bar>round2 Decimal v - v\<bar> \<le> 1 / 200"
  using math_round_nearest [of "v * 100"] unfolding round2_def Decimal_ops by linarith

lemma if_positive_Some: "if_positive a = Some v \<longleftrightarrow> a = Some v \<and> 0 < v"
  by (cases a) auto

lemma if_positive_None: "if_positive a \<noteq> None \<longleftrightarrow> (\<exists>v. a = Some v \<and> 0 < v)"
  by (cases a) auto

lemma floor_eighth: "\<lfloor>25 / 2 :: rat\<rfloor> = 12"
  by (rule floor_unique) simp_all

section \<open>The claims\<close>

text \<open>
  C1 fails on the code as stated. For milk (2 at 10.00) and bread (1 at 1.50) with an order
  discount of 10 percent and 5, \<^verbatim>\<open>calculateTotals\<close> returns the net subtotal
  14.350000000000001, which it gets as (21.5 - 2.15) - 5, and the order discount 7.15; the
  claimed \<open>max 0.01 (subtotalAfterLineDiscounts - orderDiscountTotal)\<close> is 21.5 - 7.15 =
  14.35, whether the difference is rounded to a double or taken exactly.
\<close>

theorem C1_counterexample:
  "items (run Binary64 order_discounted) = [milk_line, bread_line]
   \<and> transactionDiscountPercentage (run Binary64 order_discounted) = 10
   \<and> transactionDiscountAmount (run Binary64 order_discounted) = 5
   \<and> stored_totals (run Binary64 order_discounted)
     = calculateTotals Binary64 [milk_line, bread_line] 10 5
   \<and> subtotal (calculateTotals Binary64 [milk_line, bread_line] 10 5)
     = 2019582957898957 / 140737488355328
   \<and> subtotalBeforeDiscount (calculateTotals Binary64 [milk_line, bread_line] 10 5) = 43 / 2
   \<and> totalItemDiscounts (calculateTotals Binary64 [milk_line, bread_line] 10 5) = 0
   \<and> transactionDiscount (calculateTotals Binary64 [milk_line, bread_line] 10 5)
     = 4025092166962381 / 562949953421312
   \<and> max (litn Binary64 (1 / 100))
         (subn Binary64 (subn Binary64 (43 / 2) 0) (4025092166962381 / 562949953421312))
     = 8078331831595827 / 562949953421312
   \<and> max (1 / 100) (43 / 2 - 0 - 4025092166962381 / 562949953421312)
     = (8078331831595827 / 562949953421312 :: rat)
   \<and> (2019582957898957 / 140737488355328 :: rat) \<noteq> 8078331831595827 / 562949953421312"
  by (simp add: eval_defs stored_totals_def sample_defs arith_defs fl_values)

text \<open>
  C1, as the code has it. In every recompute the order-level discount is taken on the
  subtotal that remains after the line discounts, not on the gross. With the gross subtotal
  and the line discount total as the two \<^verbatim>\<open>reduce\<close> calls accumulate them, and
  \<open>subtotalAfterLineDiscounts = grossSubtotal - lineDiscountTotal\<close>, \<^verbatim>\<open>calculateTotals\<close>
  returns
  \<open>orderDiscountTotal = subtotalAfterLineDiscounts * (orderDiscountPercent / 100) + orderDiscountAmount\<close>
  and
  \<open>netSubtotal = max 0.01 ((subtotalAfterLineDiscounts - subtotalAfterLineDiscounts * (orderDiscountPercent / 100)) - orderDiscountAmount)\<close>,
  for all lines and all discount values, each operation being one of the arithmetic, in
  the arithmetic of the code as well as in decimal arithmetic. In decimal arithmetic, and
  there only, this net subtotal is \<open>max 0.01 (subtotalAfterLineDiscounts - orderDiscountTotal)\<close>,
  with the gross subtotal the sum of \<open>quantity * unit_price\<close> and the line discount total
  the sum of the line discounts.
\<close>

theorem C1_order_discount_on_post_line_subtotal:
  "(let t = calculateTotals ar its orderDiscountPercent orderDiscountAmount;
        subtotalAfterLineDiscounts = subn ar (subtotalBeforeDiscount t) (totalItemDiscounts t);
        percentPart = muln ar subtotalAfterLineDiscounts (divn ar orderDiscountPercent 100)
    in subtotalBeforeDiscount t = grossSubtotal ar its
     \<and> totalItemDiscounts t = lineDiscountTotal ar its
     \<and> transactionDiscount t = addn ar percentPart orderDiscountAmount
     \<and> subtotal t
         = max (litn ar (1 / 100))
             (subn ar (subn ar subtotalAfterLineDiscounts percentPart) orderDiscountAmount))
   \<and> (let t = calculateTotals Decimal its orderDiscountPercent orderDiscountAmount;
            subtotalAfterLineDiscounts = subtotalBeforeDiscount t - totalItemDiscounts t
        in subtotalBeforeDiscount t
             = sum_list (map (\<lambda>item. of_int (quantity item) * unit_price item) its)
         \<and> totalItemDiscounts t
             = sum_list (map (\<lambda>item. of_int (quantity item) * unit_price item
                                          * (discount_percentage item / 100)
                                        + discount_amount item) its)
         \<and> transactionDiscount t
             = subtotalAfterLineDiscounts * (orderDiscountPercent / 100) + orderDiscountAmount
         \<and> subtotal t = max (1 / 100) (subtotalAfterLineDiscounts - transactionDiscount t))"
proof -
  have code: "let t = calculateTotals ar its orderDiscountPercent orderDiscountAmount;
        subtotalAfterLineDiscounts = subn ar (subtotalBeforeDiscount t) (totalItemDiscounts t);
        percentPart = muln ar subtotalAfterLineDiscounts (divn ar orderDiscountPercent 100)
    in subtotalBeforeDiscount t = grossSubtotal ar its
     \<and> totalItemDiscounts t = lineDiscountTotal ar its
     \<and> transactionDiscount t = addn ar percentPart orderDiscountAmount
     \<and> subtotal t
         = max (litn ar (1 / 100))
             (subn ar (subn ar subtotalAfterLineDiscounts percentPart) orderDiscountAmount)"
    unfolding Let_def
    by (simp only: calculateTotals_gross calculateTotals_lineDiscounts
          calculateTotals_transactionDiscount calculateTotals_subtotal simp_thms)
  have g: "grossSubtotal Decimal its
      = sum_list (map (\<lambda>item. of_int (quantity item) * unit_price item) its)"
    by (simp only: grossSubtotal_Decimal grossLine_Decimal)
  have d: "lineDiscountTotal Decimal its
      = sum_list (map (\<lambda>item. of_int (quantity item) * unit_price item
                                  * (discount_percentage item / 100)
                                + discount_amount item) its)"
    by (simp only: lineDiscountTotal_Decimal lineDiscount_Decimal)
  have decimal: "let t = calculateTotals Decimal its orderDiscountPercent orderDiscountAmount;
            subtotalAfterLineDiscounts = subtotalBeforeDiscount t - totalItemDiscounts t
        in subtotalBeforeDiscount t
             = sum_list (map (\<lambda>item. of_int (quantity item) * unit_price item) its)
         \<and> totalItemDiscounts t
             = sum_list (map (\<lambda>item. of_int (quantity item) * unit_price item
                                          * (discount_percentage item / 100)
                                        + discount_amount item) its)
         \<and> transactionDiscount t
             = subtotalAfterLineDiscounts * (orderDiscountPercent / 100) + orderDiscountAmount
         \<and> subtotal t = max (1 / 100) (subtotalAfterLineDiscounts - transactionDiscount t)"
    unfolding Let_def calculateTotals_gross calculateTotals_lineDiscounts
      calculateTotals_transactionDiscount calculateTotals_subtotal g d Decimal_ops
    by (simp add: algebra_simps)
  from code decimal show ?thesis by (rule conjI)
qed

text \<open>
  C1 in the arithmetic of the code, on one line of two units at 10.00 with a line discount
  of 10 percent, and an order discount of 50 percent and 5: gross 20, line discounts 2,
  order discount (20 - 2) * 0.5 + 5 = 14, net subtotal (18 - 9) - 5 = 4. The percentage is
  taken on 18; on the gross it would have given an order discount of 15.
\<close>

theorem C1_witness:
  "subtotalBeforeDiscount (calculateTotals Binary64
      [milk_line \<lparr> discount_percentage := 10, item_subtotal := 18 \<rparr>] 50 5) = 20
   \<and> totalItemDiscounts (calculateTotals Binary64
      [milk_line \<lparr> discount_percentage := 10, item_subtotal := 18 \<rparr>] 50 5) = 2
   \<and> transactionDiscount (calculateTotals Binary64
      [milk_line \<lparr> discount_percentage := 10, item_subtotal := 18 \<rparr>] 50 5) = 14
   \<and> subtotal (calculateTotals Binary64
      [milk_line \<lparr> discount_percentage := 10, item_subtotal := 18 \<rparr>] 50 5) = 4"
  using C1_order_discount_on_post_line_subtotal
     [of Binary64 "[milk_line \<lparr> discount_percentage := 10, item_subtotal := 18 \<rparr>]" 50 5]
  by (simp add: Let_def sample_defs arith_defs fl_values grossSubtotal_def lineDiscountTotal_def
        grossLine_def percentDiscount_def)







text \<open>
  C4 fails as stated. The cleared cart and the cart left by adding a product and removing
  it again have the same lines (none) and the same order discounts (0 and 0), and store
  different net subtotals, 0 and 0.01 (the double nearest to it); and the net subtotal the
  cleared cart stores is not what the recompute gives on its lines and order discounts.
\<close>

theorem C4_counterexample:
  "items (run Binary64 [CLEAR_CART]) = items (run Binary64 [ADD_ITEM milk, REMOVE_ITEM 1])
   \<and> transactionDiscountPercentage (run Binary64 [CLEAR_CART])
       = transactionDiscountPercentage (run Binary64 [ADD_ITEM milk, REMOVE_ITEM 1])
   \<and> transactionDiscountAmount (run Binary64 [CLEAR_CART])
       = transactionDiscountAmount (run Binary64 [ADD_ITEM milk, REMOVE_ITEM 1])
   \<and> subtotal (run Binary64 [CLEAR_CART]) = 0
   \<and> subtotal (run Binary64 [ADD_ITEM milk, REMOVE_ITEM 1])
       = 5764607523034235 / 576460752303423488
   \<and> subtotal (run Binary64 [CLEAR_CART])
       \<noteq> subtotal (calculateTotals Binary64 (items (run Binary64 [CLEAR_CART]))
             (transactionDiscountPercentage (run Binary64 [CLEAR_CART]))
             (transactionDiscountAmount (run Binary64 [CLEAR_CART])))"
  by (simp add: eval_defs sample_defs arith_defs fl_values)

text \<open>
  C4, as the code has it. In every cart reached from the initial cart by any list of
  actions, the stored gross subtotal, line discount total, order discount total and
  discount total are what \<^verbatim>\<open>calculateTotals\<close> returns on the cart's lines and order
  discounts, and so is the stored net subtotal unless the cart is the canonical empty cart
  (the initial state, also the result of \<^verbatim>\<open>CLEAR_CART\<close>), which stores 0. Hence two
  reachable carts with equal lines and equal order discounts store the same four totals,
  and the same net subtotal when both or neither of them is the canonical empty cart. This
  holds in the arithmetic of the code and in decimal arithmetic.
\<close>

theorem C4_totals_recomputed:
  "let s = run ar acts; s' = run ar acts';
       t = calculateTotals ar (items s) (transactionDiscountPercentage s)
             (transactionDiscountAmount s)
   in subtotalBeforeDiscount s = subtotalBeforeDiscount t
    \<and> totalItemDiscounts s = totalItemDiscounts t
    \<and> transactionDiscount s = transactionDiscount t
    \<and> totalDiscount s = totalDiscount t
    \<and> subtotal s = (if s = initial_state then 0 else subtotal t)
    \<and> (items s = items s'
         \<and> transactionDiscountPercentage s = transactionDiscountPercentage s'
         \<and> transactionDiscountAmount s = transactionDiscountAmount s'
       \<longrightarrow> subtotalBeforeDiscount s = subtotalBeforeDiscount s'
         \<and> totalItemDiscounts s = totalItemDiscounts s'
         \<and> transactionDiscount s = transactionDiscount s'
         \<and> totalDiscount s = totalDiscount s'
         \<and> ((s = initial_state \<longleftrightarrow> s' = initial_state) \<longrightarrow> subtotal s = subtotal s'))"
  unfolding Let_def
  using run_totals [of ar acts] run_totals [of ar acts']
  by simp

text \<open>C4 on two different ways to the same one-line cart.\<close>

theorem C4_witness:
  "stored_totals (run Binary64 [ADD_ITEM milk, OTHER])
     = stored_totals (run Binary64 [CLEAR_CART, ADD_ITEM milk])
   \<and> subtotal (run Binary64 [ADD_ITEM milk, OTHER]) = 20"
  using C4_totals_recomputed [of Binary64 "[ADD_ITEM milk, OTHER]" "[CLEAR_CART, ADD_ITEM milk]"]
  by (simp add: eval_defs sample_defs arith_defs fl_values stored_totals_def)



text \<open>
  C6 fails as stated: on the initial cart, which has no line at all, \<^verbatim>\<open>UPDATE_QUANTITY\<close>
  does not return the cart it was given (the net subtotal is recomputed to 0.01).
\<close>

theorem C6_counterexample:
  "1 \<notin> item_id ` set (items (run Binary64 []))
   \<and> cartReducer Binary64 (run Binary64 []) (UPDATE_QUANTITY 1 5) \<noteq> run Binary64 []"
  by (simp add: eval_defs arith_defs fl_values)

text \<open>
  C6, as the code has it. Take any cart reached from the initial cart by actions whose
  \<^verbatim>\<open>ADD_ITEM\<close> quantities are positive, and any \<^verbatim>\<open>UPDATE_QUANTITY\<close> with an id and a
  quantity. If the quantity is zero or less, the lines with that id are removed and the
  others kept. If it is positive, the lines with that id get this quantity and a subtotal
  recomputed from it, and all lines are kept. If no line has the id, the lines are
  unchanged, and the returned cart is the given cart exactly when the given cart is not the
  canonical empty cart. In all cases the order discounts are kept and the five stored
  totals are recomputed from the new lines. Each operation is one of the arithmetic, in
  the arithmetic of the code as well as in decimal arithmetic.
\<close>

theorem C6_set_quantity:
  assumes "list_all positive_add acts"
  shows "let s = run ar acts; s' = cartReducer ar s (UPDATE_QUANTITY pid qty) in
     (qty \<le> 0 \<longrightarrow> items s' = filter (\<lambda>item. item_id item \<noteq> pid) (items s))
   \<and> (0 < qty \<longrightarrow>
        items s' =
          map (\<lambda>item. if item_id item = pid
                 then item \<lparr> quantity := qty,
                             item_subtotal :=
                               max 0 (subn ar (muln ar (of_int qty) (unit_price item))
                                        (addn ar
                                           (muln ar (muln ar (of_int qty) (unit_price item))
                                              (divn ar (discount_percentage item) 100))
                                           (discount_amount item))) \<rparr>
                 else item) (items s))
   \<and> (pid \<notin> item_id ` set (items s) \<longrightarrow>
        items s' = items s \<and> (s' = s \<longleftrightarrow> s \<noteq> initial_state))
   \<and> transactionDiscountPercentage s' = transactionDiscountPercentage s
   \<and> transactionDiscountAmount s' = transactionDiscountAmount s
   \<and> stored_totals s' =
       calculateTotals ar (items s') (transactionDiscountPercentage s')
         (transactionDiscountAmount s')"
proof -
  have pos: "quantities_positive (run ar acts)"
    using assms by (rule run_quantities)
  have sub: "itemSubtotalOf ar (item \<lparr> quantity := qty \<rparr>)
      = max 0 (subn ar (muln ar (of_int qty) (unit_price item))
                 (addn ar
                    (muln ar (muln ar (of_int qty) (unit_price item))
                       (divn ar (discount_percentage item) 100))
                    (discount_amount item)))" for item
    by (simp add: itemSubtotalOf_eq grossLine_def lineDiscount_def percentDiscount_def)
  show ?thesis
    unfolding Let_def UPDATE_QUANTITY_rest
    using UPDATE_QUANTITY_absent [OF pos, of pid ar qty]
    by (simp add: UPDATE_QUANTITY_items [OF pos] sub run_recomputed_iff del: cartReducer.simps)
qed

text \<open>
  C6 on a cart of two lines: quantity -5 and quantity 0 remove the line, quantity 3 sets
  it, an unknown id changes nothing.
\<close>

theorem C6_witness:
  "list_all positive_add [ADD_ITEM milk, ADD_ITEM bread]
   \<and> items (cartReducer Binary64 (run Binary64 [ADD_ITEM milk, ADD_ITEM bread])
              (UPDATE_QUANTITY 1 (- 5)))
       = [bread_line]
   \<and> items (cartReducer Binary64 (run Binary64 [ADD_ITEM milk, ADD_ITEM bread])
              (UPDATE_QUANTITY 1 0))
       = [bread_line]
   \<and> items (cartReducer Binary64 (run Binary64 [ADD_ITEM milk, ADD_ITEM bread])
              (UPDATE_QUANTITY 1 3))
       = [milk_line \<lparr> quantity := 3, item_subtotal := 30 \<rparr>, bread_line]
   \<and> cartReducer Binary64 (run Binary64 [ADD_ITEM milk, ADD_ITEM bread]) (UPDATE_QUANTITY 7 3)
       = run Binary64 [ADD_ITEM milk, ADD_ITEM bread]"
proof -
  have ok: "list_all positive_add [ADD_ITEM milk, ADD_ITEM bread]"
    by (simp add: milk_def bread_def)
  have ne: "run Binary64 [ADD_ITEM milk, ADD_ITEM bread] \<noteq> initial_state"
  proof
    assume "run Binary64 [ADD_ITEM milk, ADD_ITEM bread] = initial_state"
    then have "items (run Binary64 [ADD_ITEM milk, ADD_ITEM bread]) = items initial_state"
      by simp
    then show False by (simp add: items_two initial_state_def)
  qed
  note t = C6_set_quantity [OF ok, where ar = Binary64, unfolded Let_def items_two]
  have "items (cartReducer Binary64 (run Binary64 [ADD_ITEM milk, ADD_ITEM bread])
              (UPDATE_QUANTITY 1 (- 5)))
       = [bread_line]"
    using t [where pid = 1 and qty = "- 5"]
    by (simp add: milk_line_def bread_line_def del: cartReducer.simps)
  moreover have "items (cartReducer Binary64 (run Binary64 [ADD_ITEM milk, ADD_ITEM bread])
              (UPDATE_QUANTITY 1 0))
       = [bread_line]"
    using t [where pid = 1 and qty = 0]
    by (simp add: milk_line_def bread_line_def del: cartReducer.simps)
  moreover have "items (cartReducer Binary64 (run Binary64 [ADD_ITEM milk, ADD_ITEM bread])
              (UPDATE_QUANTITY 1 3))
       = [milk_line \<lparr> quantity := 3, item_subtotal := 30 \<rparr>, bread_line]"
    using t [where pid = 1 and qty = 3]
    by (simp add: milk_line_def bread_line_def arith_defs fl_values del: cartReducer.simps)
  moreover have "cartReducer Binary64 (run Binary64 [ADD_ITEM milk, ADD_ITEM bread])
              (UPDATE_QUANTITY 7 3)
       = run Binary64 [ADD_ITEM milk, ADD_ITEM bread]"
    using t [where pid = 7 and qty = 3] ne
    by (simp add: milk_line_def bread_line_def del: cartReducer.simps)
  ultimately show ?thesis using ok by simp
qed

text \<open>
  C7. Setting the line discount overwrites: for every cart, every product id and any two
  pairs of discounts, \<^verbatim>\<open>UPDATE_ITEM_DISCOUNT\<close> with the first pair and then with the second
  gives the same cart as \<^verbatim>\<open>UPDATE_ITEM_DISCOUNT\<close> with the second pair alone, in the
  arithmetic of the code as well as in decimal arithmetic.
\<close>

theorem C7_line_discount_overwrites:
  "cartReducer ar (cartReducer ar s (UPDATE_ITEM_DISCOUNT pid p1 a1))
       (UPDATE_ITEM_DISCOUNT pid p2 a2)
     = cartReducer ar s (UPDATE_ITEM_DISCOUNT pid p2 a2)"
  by (simp add: Let_def spread_spread stateTotals_spread discount_twice del: map_map)

text \<open>C7 on a line of 20: after 50 percent and 3, then 10 percent and nothing, it costs 18.\<close>

theorem C7_witness:
  "items (cartReducer Binary64
            (cartReducer Binary64 (run Binary64 [ADD_ITEM milk])
               (UPDATE_ITEM_DISCOUNT 1 (Some 50) (Some 3)))
            (UPDATE_ITEM_DISCOUNT 1 (Some 10) None))
     = [milk_line \<lparr> discount_percentage := 10, discount_amount := 0, item_subtotal := 18 \<rparr>]"
proof -
  have "items (cartReducer Binary64 (run Binary64 [ADD_ITEM milk])
                 (UPDATE_ITEM_DISCOUNT 1 (Some 10) None))
     = [milk_line \<lparr> discount_percentage := 10, discount_amount := 0, item_subtotal := 18 \<rparr>]"
    by (simp add: eval_defs sample_defs arith_defs fl_values)
  then show ?thesis
    by (simp only: C7_line_discount_overwrites
          [of Binary64 "run Binary64 [ADD_ITEM milk]" 1 "Some 50" "Some 3" "Some 10" None])
qed

text \<open>
  C8 fails as stated: on the initial cart, \<^verbatim>\<open>REMOVE_ITEM\<close> of an id that is not there
  returns a cart with net subtotal 0.01 (the double nearest to it), not the cart it was
  given, whose net subtotal is 0.
\<close>

theorem C8_counterexample:
  "1 \<notin> item_id ` set (items (run Binary64 []))
   \<and> cartReducer Binary64 (run Binary64 []) (REMOVE_ITEM 1) \<noteq> run Binary64 []
   \<and> subtotal (run Binary64 []) = 0
   \<and> subtotal (cartReducer Binary64 (run Binary64 []) (REMOVE_ITEM 1))
       = 5764607523034235 / 576460752303423488"
  by (simp add: eval_defs arith_defs fl_values)

text \<open>
  C8, as the code has it. Take any cart reached from the initial cart by any list of
  actions, and any product id. If no line has the id, \<^verbatim>\<open>REMOVE_ITEM\<close> leaves the lines
  unchanged, and the returned cart is the given cart exactly when the given cart is not the
  canonical empty cart. If a line has the id, exactly that line is taken out and the others
  stay in their order. Afterwards no line has the id, the order discounts are kept and the
  five stored totals are recomputed from the new lines. This holds in the arithmetic of the
  code and in decimal arithmetic.
\<close>

theorem C8_remove_item:
  "let s = run ar acts; s' = cartReducer ar s (REMOVE_ITEM pid) in
     (pid \<notin> item_id ` set (items s) \<longrightarrow>
        items s' = items s \<and> (s' = s \<longleftrightarrow> s \<noteq> initial_state))
   \<and> (pid \<in> item_id ` set (items s) \<longrightarrow>
        (\<exists>before item after.
           items s = before @ item # after \<and> item_id item = pid \<and> items s' = before @ after))
   \<and> pid \<notin> item_id ` set (items s')
   \<and> transactionDiscountPercentage s' = transactionDiscountPercentage s
   \<and> transactionDiscountAmount s' = transactionDiscountAmount s
   \<and> stored_totals s' =
       calculateTotals ar (items s') (transactionDiscountPercentage s')
         (transactionDiscountAmount s')"
  unfolding Let_def REMOVE_ITEM_rest
  using remove_distinct [OF run_distinct, of pid ar acts]
    REMOVE_ITEM_absent [of pid "run ar acts" ar]
  by (auto simp: absent_filter run_recomputed_iff simp del: cartReducer.simps)

text \<open>
  C8 on a cart of two lines: removing an unknown id returns the cart, removing the first
  line leaves the second.
\<close>

theorem C8_witness:
  "7 \<notin> item_id ` set (items (run Binary64 [ADD_ITEM milk, ADD_ITEM bread]))
   \<and> cartReducer Binary64 (run Binary64 [ADD_ITEM milk, ADD_ITEM bread]) (REMOVE_ITEM 7)
       = run Binary64 [ADD_ITEM milk, ADD_ITEM bread]
   \<and> 1 \<in> item_id ` set (items (run Binary64 [ADD_ITEM milk, ADD_ITEM bread]))
   \<and> (\<exists>before item after.
         items (run Binary64 [ADD_ITEM milk, ADD_ITEM bread]) = before @ item # after
         \<and> item_id item = 1
         \<and> items (cartReducer Binary64 (run Binary64 [ADD_ITEM milk, ADD_ITEM bread])
                    (REMOVE_ITEM 1))
             = before @ after)"
proof -
  have ne: "run Binary64 [ADD_ITEM milk, ADD_ITEM bread] \<noteq> initial_state"
  proof
    assume "run Binary64 [ADD_ITEM milk, ADD_ITEM bread] = initial_state"
    then have "items (run Binary64 [ADD_ITEM milk, ADD_ITEM bread]) = items initial_state"
      by simp
    then show False by (simp add: items_two initial_state_def)
  qed
  have absent: "7 \<notin> item_id ` set (items (run Binary64 [ADD_ITEM milk, ADD_ITEM bread]))"
    and present: "1 \<in> item_id ` set (items (run Binary64 [ADD_ITEM milk, ADD_ITEM bread]))"
    by (simp_all add: items_two milk_line_def bread_line_def)
  note t = C8_remove_item [where ar = Binary64 and acts = "[ADD_ITEM milk, ADD_ITEM bread]",
      unfolded Let_def]
  from t [where pid = 7] absent ne
  have "cartReducer Binary64 (run Binary64 [ADD_ITEM milk, ADD_ITEM bread]) (REMOVE_ITEM 7)
       = run Binary64 [ADD_ITEM milk, ADD_ITEM bread]"
    by blast
  moreover from t [where pid = 1] present
  have "\<exists>before item after.
         items (run Binary64 [ADD_ITEM milk, ADD_ITEM bread]) = before @ item # after
         \<and> item_id item = 1
         \<and> items (cartReducer Binary64 (run Binary64 [ADD_ITEM milk, ADD_ITEM bread])
                    (REMOVE_ITEM 1))
             = before @ after"
    by blast
  ultimately show ?thesis using absent present by blast
qed

text \<open>
  C9 fails as stated: a line discount amount of 0.125, set in the cart and passed on with
  the cart's items, is in the payload as 0.125, which has three decimal places; rounded as
  the cash amounts are, it would have been sent as 0.13.
\<close>

theorem C9_counterexample:
  "map sent_discount_amount
     (sent_items (createTransaction_payload Binary64
        (map as_item_arg
           (items (run Binary64 [ADD_ITEM milk, UPDATE_ITEM_DISCOUNT 1 (Some 0) (Some (1 / 8))])))
        ''Card'' None None None None)) = [Some (1 / 8)]
   \<and> \<not> two_decimals (1 / 8)
   \<and> round2 Binary64 (1 / 8) = 1170935903116329 / 9007199254740992
   \<and> (1 / 8 :: rat) \<noteq> 1170935903116329 / 9007199254740992"
  by (simp add: eval_defs sample_defs arith_defs fl_values createTransaction_payload_def
        as_item_arg_def two_decimals_def floor_eighth round2_def math_round_def)

text \<open>
  C9, as the code has it. The payload has one entry per item, in order, with the item's
  product id and quantity. An entry has the key \<^verbatim>\<open>discount_percentage\<close> (and likewise
  \<^verbatim>\<open>discount_amount\<close>) exactly when the item's value is there and greater than 0, and
  then the value is the item's value, unchanged and not rounded; the same holds for the
  two order-level discount keys of the payload. \<^verbatim>\<open>cash_received\<close> is in the payload
  exactly when the payment method is Cash and a cash amount was given, and its value is
  then \<^verbatim>\<open>Math.round(cashReceived * 100) / 100\<close>; \<^verbatim>\<open>change_amount\<close> is in the payload
  exactly when, moreover, a change amount was given, and its value is then
  \<^verbatim>\<open>Math.round(changeAmount * 100) / 100\<close>. This value is \<open>k / 100\<close> for the whole
  number \<open>k\<close> nearest to the product \<open>v * 100\<close>, a half upwards, product and quotient being
  operations of the arithmetic. In decimal arithmetic, and there only, it has at most two
  decimal places and is within 0.005 of the amount given; in the arithmetic of the code it
  is the double nearest to \<open>k / 100\<close>, and \<open>k\<close> is taken from the rounded product.
\<close>

theorem C9_payload:
  "(let sent = createTransaction_payload ar its paymentMethod cashReceived changeAmount
                 discountPercentage discountAmount
    in length (sent_items sent) = length its
     \<and> (\<forall>i < length its.
           let item = its ! i; out = sent_items sent ! i in
             sent_product_id out = id_or (arg_product_id item) (arg_id item)
           \<and> sent_quantity out = arg_quantity item
           \<and> (sent_discount_percentage out \<noteq> None
                \<longleftrightarrow> (\<exists>v. arg_discount_percentage item = Some v \<and> 0 < v))
           \<and> (sent_discount_amount out \<noteq> None
                \<longleftrightarrow> (\<exists>v. arg_discount_amount item = Some v \<and> 0 < v))
           \<and> (\<forall>v. sent_discount_percentage out = Some v
                  \<longrightarrow> arg_discount_percentage item = Some v)
           \<and> (\<forall>v. sent_discount_amount out = Some v \<longrightarrow> arg_discount_amount item = Some v))
     \<and> payment_method sent = paymentMethod
     \<and> (order_discount_percentage sent \<noteq> None
           \<longleftrightarrow> (\<exists>v. discountPercentage = Some v \<and> 0 < v))
     \<and> (order_discount_amount sent \<noteq> None \<longleftrightarrow> (\<exists>v. discountAmount = Some v \<and> 0 < v))
     \<and> (\<forall>v. order_discount_percentage sent = Some v \<longrightarrow> discountPercentage = Some v)
     \<and> (\<forall>v. order_discount_amount sent = Some v \<longrightarrow> discountAmount = Some v)
     \<and> (cash_received sent \<noteq> None \<longleftrightarrow> paymentMethod = ''Cash'' \<and> cashReceived \<noteq> None)
     \<and> (\<forall>w. cash_received sent = Some w
            \<longleftrightarrow> paymentMethod = ''Cash'' \<and> (\<exists>v. cashReceived = Some v \<and> w = round2 ar v))
     \<and> (change_amount sent \<noteq> None
           \<longleftrightarrow> paymentMethod = ''Cash'' \<and> cashReceived \<noteq> None \<and> changeAmount \<noteq> None)
     \<and> (\<forall>w. change_amount sent = Some w
            \<longleftrightarrow> paymentMethod = ''Cash'' \<and> cashReceived \<noteq> None
                \<and> (\<exists>v. changeAmount = Some v \<and> w = round2 ar v)))
   \<and> (\<forall>v. \<exists>k. round2 ar v = divn ar (of_int k) 100
              \<and> of_int k - 1 / 2 \<le> muln ar v 100 \<and> muln ar v 100 < of_int k + 1 / 2)
   \<and> (\<forall>v. two_decimals (round2 Decimal v) \<and> \<bar>round2 Decimal v - v\<bar> \<le> 1 / 200)
   \<and> (let sent = createTransaction_payload Decimal its paymentMethod cashReceived changeAmount
                    discountPercentage discountAmount
       in (\<forall>v. cash_received sent = Some v \<longrightarrow> two_decimals v)
        \<and> (\<forall>v. change_amount sent = Some v \<longrightarrow> two_decimals v))"
proof -
  have payload: "let sent = createTransaction_payload ar its paymentMethod cashReceived
                   changeAmount discountPercentage discountAmount
    in length (sent_items sent) = length its
     \<and> (\<forall>i < length its.
           let item = its ! i; out = sent_items sent ! i in
             sent_product_id out = id_or (arg_product_id item) (arg_id item)
           \<and> sent_quantity out = arg_quantity item
           \<and> (sent_discount_percentage out \<noteq> None
                \<longleftrightarrow> (\<exists>v. arg_discount_percentage item = Some v \<and> 0 < v))
           \<and> (sent_discount_amount out \<noteq> None
                \<longleftrightarrow> (\<exists>v. arg_discount_amount item = Some v \<and> 0 < v))
           \<and> (\<forall>v. sent_discount_percentage out = Some v
                  \<longrightarrow> arg_discount_percentage item = Some v)
           \<and> (\<forall>v. sent_discount_amount out = Some v \<longrightarrow> arg_discount_amount item = Some v))
     \<and> payment_method sent = paymentMethod
     \<and> (order_discount_percentage sent \<noteq> None
           \<longleftrightarrow> (\<exists>v. discountPercentage = Some v \<and> 0 < v))
     \<and> (order_discount_amount sent \<noteq> None \<longleftrightarrow> (\<exists>v. discountAmount = Some v \<and> 0 < v))
     \<and> (\<forall>v. order_discount_percentage sent = Some v \<longrightarrow> discountPercentage = Some v)
     \<and> (\<forall>v. order_discount_amount sent = Some v \<longrightarrow> discountAmount = Some v)
     \<and> (cash_received sent \<noteq> None \<longleftrightarrow> paymentMethod = ''Cash'' \<and> cashReceived \<noteq> None)
     \<and> (\<forall>w. cash_received sent = Some w
            \<longleftrightarrow> paymentMethod = ''Cash'' \<and> (\<exists>v. cashReceived = Some v \<and> w = round2 ar v))
     \<and> (change_amount sent \<noteq> None
           \<longleftrightarrow> paymentMethod = ''Cash'' \<and> cashReceived \<noteq> None \<and> changeAmount \<noteq> None)
     \<and> (\<forall>w. change_amount sent = Some w
            \<longleftrightarrow> paymentMethod = ''Cash'' \<and> cashReceived \<noteq> None
                \<and> (\<exists>v. changeAmount = Some v \<and> w = round2 ar v))"
    unfolding Let_def createTransaction_payload_def
    by (auto simp: if_positive_Some if_positive_None)
  have nearest: "\<forall>v. \<exists>k. round2 ar v = divn ar (of_int k) 100
              \<and> of_int k - 1 / 2 \<le> muln ar v 100 \<and> muln ar v 100 < of_int k + 1 / 2"
  proof
    fix v
    show "\<exists>k. round2 ar v = divn ar (of_int k) 100
              \<and> of_int k - 1 / 2 \<le> muln ar v 100 \<and> muln ar v 100 < of_int k + 1 / 2"
      using math_round_nearest [of "muln ar v 100"]
      by (intro exI [of _ "math_round (muln ar v 100)"]) (simp add: round2_def)
  qed
  have decimal: "\<forall>v. two_decimals (round2 Decimal v) \<and> \<bar>round2 Decimal v - v\<bar> \<le> 1 / 200"
    by (intro allI conjI two_decimals_round2 round2_Decimal_close)
  have sent: "let sent = createTransaction_payload Decimal its paymentMethod cashReceived
                    changeAmount discountPercentage discountAmount
       in (\<forall>v. cash_received sent = Some v \<longrightarrow> two_decimals v)
        \<and> (\<forall>v. change_amount sent = Some v \<longrightarrow> two_decimals v)"
    unfolding Let_def createTransaction_payload_def
    by (auto simp: two_decimals_round2)
  from payload nearest decimal sent show ?thesis by (intro conjI)
qed

text \<open>
  C9 on a cash sale of one item with 10 percent and a discount amount of 0, in the
  arithmetic of the code: the percentage is sent, the amount is not, 10.555 received is
  sent as 10.56 and 0.005 change as 0.01. The same sale paid by card has neither of the two
  cash keys. And 1.005 is sent as 1, since the double 1.005 times 100 is
  100.49999999999999.
\<close>

theorem C9_witness:
  "createTransaction_payload Binary64
     [\<lparr> arg_product_id = None, arg_id = Some 1, arg_quantity = 2,
        arg_discount_percentage = Some 10, arg_discount_amount = Some 0 \<rparr>]
     ''Cash'' (Some (fl (10555 / 1000))) (Some (fl (1 / 200))) None None
   = \<lparr> sent_items = [\<lparr> sent_product_id = Some 1, sent_quantity = 2,
                       sent_discount_percentage = Some 10, sent_discount_amount = None \<rparr>],
       payment_method = ''Cash'', order_discount_percentage = None,
       order_discount_amount = None,
       cash_received = Some (fl (1056 / 100)), change_amount = Some (fl (1 / 100)) \<rparr>
   \<and> createTransaction_payload Binary64
     [\<lparr> arg_product_id = None, arg_id = Some 1, arg_quantity = 2,
        arg_discount_percentage = Some 10, arg_discount_amount = Some 0 \<rparr>]
     ''Card'' (Some (fl (10555 / 1000))) (Some (fl (1 / 200))) None None
   = \<lparr> sent_items = [\<lparr> sent_product_id = Some 1, sent_quantity = 2,
                       sent_discount_percentage = Some 10, sent_discount_amount = None \<rparr>],
       payment_method = ''Card'', order_discount_percentage = None,
       order_discount_amount = None, cash_received = None, change_amount = None \<rparr>
   \<and> round2 Binary64 (fl (1005 / 1000)) = 1
   \<and> fl (1005 / 1000) * 100 = 28288235159420925 / 281474976710656
   \<and> muln Binary64 (fl (1005 / 1000)) 100 = 7072058789855231 / 70368744177664
   \<and> (7072058789855231 / 70368744177664 :: rat) < 100 + 1 / 2
   \<and> round2 Decimal (1005 / 1000) = 101 / 100"
proof -
  let ?its = "[\<lparr> arg_product_id = None, arg_id = Some 1, arg_quantity = 2,
        arg_discount_percentage = Some 10, arg_discount_amount = Some 0 \<rparr>]"
  let ?cash = "createTransaction_payload Binary64 ?its ''Cash''
     (Some (fl (10555 / 1000))) (Some (fl (1 / 200))) None None"
  let ?card = "createTransaction_payload Binary64 ?its ''Card''
     (Some (fl (10555 / 1000))) (Some (fl (1 / 200))) None None"
  have hundred: "\<lfloor>7107243161944063 / 70368744177664 :: rat\<rfloor> = 100"
    by (rule floor_unique) simp_all
  note cash = C9_payload [of Binary64 ?its "''Cash''" "Some (fl (10555 / 1000))"
      "Some (fl (1 / 200))" None None, unfolded Let_def, THEN conjunct1]
  note card = C9_payload [of Binary64 ?its "''Card''" "Some (fl (10555 / 1000))"
      "Some (fl (1 / 200))" None None, unfolded Let_def, THEN conjunct1]
  from cash have received: "cash_received ?cash = Some (round2 Binary64 (fl (10555 / 1000)))"
    by blast
  from cash have change: "change_amount ?cash = Some (round2 Binary64 (fl (1 / 200)))"
    by blast
  from card have none: "cash_received ?card = None \<and> change_amount ?card = None"
    by simp
  have rounded: "round2 Binary64 (fl (10555 / 1000)) = fl (1056 / 100)"
    "round2 Binary64 (fl (1 / 200)) = fl (1 / 100)"
    "round2 Binary64 (fl (1005 / 1000)) = 1"
    "fl (1005 / 1000) * 100 = 28288235159420925 / 281474976710656"
    "muln Binary64 (fl (1005 / 1000)) 100 = 7072058789855231 / 70368744177664"
    "round2 Decimal (1005 / 1000) = 101 / 100"
    by (simp_all add: round2_def math_round_def arith_defs fl_values hundred)
  have rest: "sent_items ?cash = [\<lparr> sent_product_id = Some 1, sent_quantity = 2,
                       sent_discount_percentage = Some 10, sent_discount_amount = None \<rparr>]"
    "payment_method ?cash = ''Cash''" "order_discount_percentage ?cash = None"
    "order_discount_amount ?cash = None"
    "sent_items ?card = [\<lparr> sent_product_id = Some 1, sent_quantity = 2,
                       sent_discount_percentage = Some 10, sent_discount_amount = None \<rparr>]"
    "payment_method ?card = ''Card''" "order_discount_percentage ?card = None"
    "order_discount_amount ?card = None"
    by (simp_all add: createTransaction_payload_def)
  have "?cash = \<lparr> sent_items = sent_items ?cash, payment_method = payment_method ?cash,
       order_discount_percentage = order_discount_percentage ?cash,
       order_discount_amount = order_discount_amount ?cash,
       cash_received = cash_received ?cash, change_amount = change_amount ?cash \<rparr>"
    by simp
  moreover have "?card = \<lparr> sent_items = sent_items ?card, payment_method = payment_method ?card,
       order_discount_percentage = order_discount_percentage ?card,
       order_discount_amount = order_discount_amount ?card,
       cash_received = cash_received ?card, change_amount = change_amount ?card \<rparr>"
    by simp
  ultimately show ?thesis
    unfolding received change rest rounded(1,2) conjunct1 [OF none] conjunct2 [OF none]
    using rounded(3-6) by simp
qed

text \<open>
  C10 fails on the code as stated. In the cart with gum at 0.10, 5 percent off, and tea at
  1.15, no line is discounted below 0; the stored line subtotals are 0.095 and 1.15, which
  add up to 1.2449999999999999 as doubles, and the engine goes on from
  1.25 - 0.005000000000000001 = 1.245. Neither the sum taken in doubles nor the exact sum
  is the engine's difference, taken in doubles or exactly.
\<close>

theorem C10_counterexample:
  "list_all (\<lambda>item. lineDiscount Binary64 item \<le> grossLine Binary64 item)
     (items (run Binary64 gum_and_tea))
   \<and> map item_subtotal (items (run Binary64 gum_and_tea))
     = [3422735716801577 / 36028797018963968, 2589569785738035 / 2251799813685248]
   \<and> foldl (addn Binary64) 0 (map item_subtotal (items (run Binary64 gum_and_tea)))
     = 5606981536076267 / 4503599627370496
   \<and> sum_list (map item_subtotal (items (run Binary64 gum_and_tea)))
     = 44855852288610137 / 36028797018963968
   \<and> subtotalBeforeDiscount (run Binary64 gum_and_tea) = 5 / 4
   \<and> totalItemDiscounts (run Binary64 gum_and_tea) = 1441151880758559 / 288230376151711744
   \<and> subn Binary64 (5 / 4) (1441151880758559 / 288230376151711744)
     = 1401745384019067 / 1125899906842624
   \<and> 5 / 4 - 1441151880758559 / 288230376151711744
     = (358846818308881121 / 288230376151711744 :: rat)
   \<and> (5606981536076267 / 4503599627370496 :: rat) \<noteq> 1401745384019067 / 1125899906842624
   \<and> (5606981536076267 / 4503599627370496 :: rat) \<noteq> 358846818308881121 / 288230376151711744
   \<and> (44855852288610137 / 36028797018963968 :: rat) \<noteq> 1401745384019067 / 1125899906842624
   \<and> (44855852288610137 / 36028797018963968 :: rat)
       \<noteq> 358846818308881121 / 288230376151711744"
  by (simp add: eval_defs sample_defs arith_defs fl_values lineDiscount_def percentDiscount_def
        grossLine_def)

text \<open>
  C10, as the code has it. In decimal arithmetic, in every cart reached from the initial
  cart by any list of actions: when every line's discount is at most the line's gross, the
  stored line subtotals add up to the stored gross subtotal minus the stored line discount
  total; when some line's discount is more than its gross, they add up to strictly more.
  In the arithmetic of the code as well as in decimal arithmetic, line by line: a line
  whose discount is at most its gross stores the difference of the two, one subtraction of
  the arithmetic; a line whose discount is more than its gross stores 0, where that
  difference is 0 or less. The second case occurs in the arithmetic of the code: in the
  cart with one line of gross 20 and line discount 32 the line subtotals add up to 0, above
  the 20 - 32 the engine goes on from.
\<close>

theorem C10_sum_of_line_subtotals:
  "(let s = run Decimal acts in
      ((\<forall>item \<in> set (items s). lineDiscount Decimal item \<le> grossLine Decimal item) \<longrightarrow>
         sum_list (map item_subtotal (items s)) = subtotalBeforeDiscount s - totalItemDiscounts s)
    \<and> ((\<exists>item \<in> set (items s). grossLine Decimal item < lineDiscount Decimal item) \<longrightarrow>
         subtotalBeforeDiscount s - totalItemDiscounts s < sum_list (map item_subtotal (items s))))
   \<and> (let s = run ar acts in
        \<forall>item \<in> set (items s).
          (lineDiscount ar item \<le> grossLine ar item \<longrightarrow>
             item_subtotal item = subn ar (grossLine ar item) (lineDiscount ar item))
        \<and> (grossLine ar item < lineDiscount ar item \<longrightarrow>
             item_subtotal item = 0 \<and> subn ar (grossLine ar item) (lineDiscount ar item) \<le> 0))
   \<and> (let s = run Binary64 overdiscounted in
        subn Binary64 (subtotalBeforeDiscount s) (totalItemDiscounts s)
          < sum_list (map item_subtotal (items s))
      \<and> subtotalBeforeDiscount s - totalItemDiscounts s
          < sum_list (map item_subtotal (items s)))"
proof -
  have lines: "\<forall>item \<in> set (items (run a acts)). item_subtotal item = itemSubtotalOf a item"
    for a
    using run_lines [of a acts] by (simp add: lines_recomputed_def list_all_iff)
  have eq: "(\<forall>item \<in> set (items (run Decimal acts)).
               lineDiscount Decimal item \<le> grossLine Decimal item) \<longrightarrow>
         sum_list (map item_subtotal (items (run Decimal acts)))
           = subtotalBeforeDiscount (run Decimal acts) - totalItemDiscounts (run Decimal acts)"
    using sum_subtotals_eq [OF lines [of Decimal]]
    by (simp add: run_sums grossSubtotal_Decimal lineDiscountTotal_Decimal)
  have gt: "(\<exists>item \<in> set (items (run Decimal acts)).
               grossLine Decimal item < lineDiscount Decimal item) \<longrightarrow>
         subtotalBeforeDiscount (run Decimal acts) - totalItemDiscounts (run Decimal acts)
           < sum_list (map item_subtotal (items (run Decimal acts)))"
    using sum_subtotals_gt [OF lines [of Decimal]]
    by (simp add: run_sums grossSubtotal_Decimal lineDiscountTotal_Decimal)
  have each: "\<forall>item \<in> set (items (run ar acts)).
          (lineDiscount ar item \<le> grossLine ar item \<longrightarrow>
             item_subtotal item = subn ar (grossLine ar item) (lineDiscount ar item))
        \<and> (grossLine ar item < lineDiscount ar item \<longrightarrow>
             item_subtotal item = 0 \<and> subn ar (grossLine ar item) (lineDiscount ar item) \<le> 0)"
    using lines [of ar] by (simp add: line_subtotal_within line_subtotal_over)
  have over: "subn Binary64 (subtotalBeforeDiscount (run Binary64 overdiscounted))
          (totalItemDiscounts (run Binary64 overdiscounted))
        < sum_list (map item_subtotal (items (run Binary64 overdiscounted)))
      \<and> subtotalBeforeDiscount (run Binary64 overdiscounted)
          - totalItemDiscounts (run Binary64 overdiscounted)
        < sum_list (map item_subtotal (items (run Binary64 overdiscounted)))"
    by (simp add: run_overdiscounted arith_defs fl_values)
  from eq gt each over show ?thesis unfolding Let_def by blast
qed

text \<open>
  C10 in the arithmetic of the code, on a cart without line discounts and on the cart whose
  line is discounted below 0.
\<close>

theorem C10_witness:
  "list_all (\<lambda>item. lineDiscount Binary64 item \<le> grossLine Binary64 item)
     (items (run Binary64 [ADD_ITEM milk, ADD_ITEM bread]))
   \<and> map item_subtotal (items (run Binary64 [ADD_ITEM milk, ADD_ITEM bread])) = [20, 3 / 2]
   \<and> map (\<lambda>item. subn Binary64 (grossLine Binary64 item) (lineDiscount Binary64 item))
       (items (run Binary64 [ADD_ITEM milk, ADD_ITEM bread])) = [20, 3 / 2]
   \<and> list_ex (\<lambda>item. grossLine Binary64 item < lineDiscount Binary64 item)
       (items (run Binary64 overdiscounted))
   \<and> map item_subtotal (items (run Binary64 overdiscounted)) = [0]
   \<and> map (\<lambda>item. subn Binary64 (grossLine Binary64 item) (lineDiscount Binary64 item))
       (items (run Binary64 overdiscounted)) = [- 12]
   \<and> subn Binary64 (subtotalBeforeDiscount (run Binary64 overdiscounted))
       (totalItemDiscounts (run Binary64 overdiscounted)) = - 12
   \<and> sum_list (map item_subtotal (items (run Binary64 overdiscounted))) = 0"
proof -
  note line_defs = lineDiscount_def percentDiscount_def grossLine_def
  have le: "\<forall>item \<in> set (items (run Binary64 [ADD_ITEM milk, ADD_ITEM bread])).
              lineDiscount Binary64 item \<le> grossLine Binary64 item"
    by (simp add: items_two milk_line_def bread_line_def line_defs arith_defs fl_values)
  have gt: "\<exists>item \<in> set (items (run Binary64 overdiscounted)).
              grossLine Binary64 item < lineDiscount Binary64 item"
    by (simp add: run_overdiscounted milk_line_def line_defs arith_defs fl_values)
  note two = C10_sum_of_line_subtotals [where ar = Binary64
      and acts = "[ADD_ITEM milk, ADD_ITEM bread]", unfolded Let_def]
  note one = C10_sum_of_line_subtotals [where ar = Binary64 and acts = overdiscounted,
      unfolded Let_def]
  from two le
  have "\<forall>item \<in> set (items (run Binary64 [ADD_ITEM milk, ADD_ITEM bread])).
          item_subtotal item = subn Binary64 (grossLine Binary64 item) (lineDiscount Binary64 item)"
    by blast
  then have within: "map (\<lambda>item. subn Binary64 (grossLine Binary64 item) (lineDiscount Binary64 item))
       (items (run Binary64 [ADD_ITEM milk, ADD_ITEM bread])) = [20, 3 / 2]"
    by (simp add: items_two milk_line_def bread_line_def)
  from one
  have strict: "subn Binary64 (subtotalBeforeDiscount (run Binary64 overdiscounted))
          (totalItemDiscounts (run Binary64 overdiscounted))
        < sum_list (map item_subtotal (items (run Binary64 overdiscounted)))"
    by blast
  have rest: "map item_subtotal (items (run Binary64 [ADD_ITEM milk, ADD_ITEM bread])) = [20, 3 / 2]"
    "map item_subtotal (items (run Binary64 overdiscounted)) = [0]"
    "map (\<lambda>item. subn Binary64 (grossLine Binary64 item) (lineDiscount Binary64 item))
       (items (run Binary64 overdiscounted)) = [- 12]"
    "subn Binary64 (subtotalBeforeDiscount (run Binary64 overdiscounted))
       (totalItemDiscounts (run Binary64 overdiscounted)) = - 12"
    "sum_list (map item_subtotal (items (run Binary64 overdiscounted))) = 0"
    by (simp_all add: items_two run_overdiscounted milk_line_def bread_line_def line_defs
          arith_defs fl_values)
  from le gt within strict rest show ?thesis
    by (simp add: list_all_iff list_ex_iff)
qed

end
